theory Spec2Isabelle
  imports Main
begin

section \<open>Session establishment of kcp-go-raw (sess.go)\<close>

text \<open>
  The package \<^verbatim>\<open>kcpraw\<close> glues three external libraries together: the raw transport
  (\<^verbatim>\<open>rawcon\<close>), the multiplexer (\<^verbatim>\<open>mulcon\<close>) and the packet session engine
  (\<^verbatim>\<open>kcp\<close>), next to \<^verbatim>\<open>net\<close> of the standard library. Its own code is the address
  check, two package-level caches and six entry points that call the libraries in a
  fixed order.

  The embedding is sequential. The package variables are the fields of a record that
  every function takes and returns; the two mutexes, which only serialise concurrent
  callers, have no counterpart. A function of another package is a field of an
  environment record: the theorems hold for every environment.

  A Go function that returns a value and an error returns, by Go's convention, either
  the error or the value: \<open>Inl err\<close> is \<^verbatim>\<open>(nil, err)\<close> and \<open>Inr v\<close> is \<^verbatim>\<open>(v, nil)\<close>.
  Go's \<^verbatim>\<open>int\<close> is \<open>int\<close>: the package stores and passes on the integers it is given
  and computes nothing with them.
\<close>

subsection \<open>Values\<close>

text \<open>
  Go errors. \<^verbatim>\<open>net.AddrError\<close> carries the reason and the address, \<^verbatim>\<open>fmt.Errorf\<close> a
  message, \<^verbatim>\<open>errors.Wrap(err, msg)\<close> the wrapped error and the message; \<open>Other\<close> is
  any other error value of a library.
\<close>

datatype error =
    AddrError string string
  | Errorf string
  | Wrap error string
  | Other string

text \<open>
  A (non-nil) \<^verbatim>\<open>net.Addr\<close>: an interface with the two methods \<^verbatim>\<open>Network()\<close> and
  \<^verbatim>\<open>String()\<close>. Two address objects can differ and still print the same.
\<close>

record Addr =
  Network :: string
  String :: string

text \<open>\<^verbatim>\<open>*net.UDPAddr\<close> and \<^verbatim>\<open>*net.UDPConn\<close>; the package only passes them on.\<close>

record UDPAddr =
  IP :: "nat list"
  Port :: int
  Zone :: string

datatype UDPConn = UDPConn nat

text \<open>
  \<^verbatim>\<open>*rawcon.RAWConn\<close> with the three methods the package calls, and
  \<^verbatim>\<open>*rawcon.RAWListener\<close>: a handle (the pointer) and its bound address.
\<close>

record RAWConn =
  LocalAddr :: Addr
  RemoteAddr :: Addr
  GetMSS :: int

record RAWListener =
  handle :: nat
  LocalAddr_lis :: Addr

text \<open>
  The dynamic types behind the \<^verbatim>\<open>net.Conn\<close> and \<^verbatim>\<open>net.PacketConn\<close> values the package
  hands to the libraries; \<open>MulConn\<close> is a connection or listener made by \<^verbatim>\<open>mulcon\<close>.
\<close>

datatype Conn =
    RawConn RAWConn
  | UdpConn UDPConn
  | RawListener RAWListener
  | MulConn nat

text \<open>\<^verbatim>\<open>kcp.BlockCrypt\<close>, \<^verbatim>\<open>*kcp.UDPSession\<close> and \<^verbatim>\<open>*kcp.Listener\<close> are opaque here.\<close>

type_synonym BlockCrypt = nat

datatype UDPSession = UDPSession nat

datatype Listener = Listener nat

subsection \<open>Package state\<close>

text \<open>\<^verbatim>\<open>rawcon.Raw\<close>: the five fields the setters of this package write.\<close>

record Raw =
  NoHTTP :: bool
  Host :: string
  DSCP :: int
  IgnRST :: bool
  Mixed :: bool

text \<open>
  A call of a library function, with its arguments. The list of the calls made so far
  stands for the outside world: a library's answer may depend on it.
\<close>

datatype call =
    Call_ResolveUDPAddr string string
  | Call_DialUDP string "UDPAddr option" UDPAddr
  | Call_ListenUDP string UDPAddr
  | Call_DialRAW string
  | Call_ListenRAW string
  | Call_mulconDial int string string
  | Call_mulconListen Conn string string
  | Call_NewConn string BlockCrypt int int Conn
  | Call_ServeConn BlockCrypt int int Conn

text \<open>
  The package variables \<^verbatim>\<open>raw\<close>, \<^verbatim>\<open>mssCache\<close> and \<^verbatim>\<open>lisCache\<close>, and the calls made into
  the libraries so far. A value of \<^verbatim>\<open>lisCache\<close> is a pointer: \<open>None\<close> is \<^verbatim>\<open>nil\<close>.
\<close>

record world =
  raw :: Raw
  mssCache :: "string \<rightharpoonup> int"
  lisCache :: "string \<rightharpoonup> RAWListener option"
  calls :: "call list"

text \<open>\<^verbatim>\<open>init()\<close> makes both maps empty; \<^verbatim>\<open>raw\<close> has the zero value of its type.\<close>

definition init :: world where
  "init = \<lparr>raw = \<lparr>NoHTTP = False, Host = [], DSCP = 0, IgnRST = False, Mixed = False\<rparr>,
           mssCache = Map.empty, lisCache = Map.empty, calls = []\<rparr>"

subsection \<open>The two caches\<close>

definition GetMSSByAddr :: "Addr \<Rightarrow> Addr \<Rightarrow> world \<Rightarrow> int" where
  "GetMSSByAddr laddr raddr w =
     (let s = String laddr @ String raddr in
      case mssCache w s of Some mss \<Rightarrow> mss | None \<Rightarrow> 0)"

definition putMSSByAddr :: "Addr \<Rightarrow> Addr \<Rightarrow> int \<Rightarrow> world \<Rightarrow> world" where
  "putMSSByAddr laddr raddr mss w =
     (let s = String laddr @ String raddr in
      w\<lparr>mssCache := (mssCache w)(s \<mapsto> mss)\<rparr>)"

definition GetListenerByAddr :: "Addr \<Rightarrow> world \<Rightarrow> RAWListener option" where
  "GetListenerByAddr laddr w =
     (case lisCache w (String laddr) of Some lis \<Rightarrow> lis | None \<Rightarrow> None)"

definition putListenerByAddr :: "Addr \<Rightarrow> RAWListener option \<Rightarrow> world \<Rightarrow> world" where
  "putListenerByAddr laddr lis w = w\<lparr>lisCache := (lisCache w)(String laddr \<mapsto> lis)\<rparr>"

subsection \<open>The libraries\<close>

text \<open>
  The functions of other packages that the package calls. Apart from
  \<^verbatim>\<open>net.SplitHostPort\<close>, which only reads its argument, each one talks to the network:
  its answer is a function of its arguments and of the calls made before it, and the
  two methods of \<^verbatim>\<open>raw\<close> read their receiver as well. \<^verbatim>\<open>mulcon.Dial\<close> is given a
  dialer to call back: \<open>mulcon_Dial_invocations\<close> is how often it does so, and
  \<open>mulcon_Dial\<close> its answer, given what the dialer returned. None of them can reach
  the two caches, which the package does not export.
\<close>

record env =
  net_SplitHostPort :: "string \<Rightarrow> error + string \<times> string"
  net_ResolveUDPAddr :: "call list \<Rightarrow> string \<Rightarrow> string \<Rightarrow> error + UDPAddr"
  net_DialUDP :: "call list \<Rightarrow> string \<Rightarrow> UDPAddr option \<Rightarrow> UDPAddr \<Rightarrow> error + UDPConn"
  net_ListenUDP :: "call list \<Rightarrow> string \<Rightarrow> UDPAddr \<Rightarrow> error + UDPConn"
  raw_DialRAW :: "Raw \<Rightarrow> call list \<Rightarrow> string \<Rightarrow> error + RAWConn"
  raw_ListenRAW :: "Raw \<Rightarrow> call list \<Rightarrow> string \<Rightarrow> error + RAWListener"
  mulcon_Dial_invocations :: "call list \<Rightarrow> int \<Rightarrow> string \<Rightarrow> string \<Rightarrow> nat"
  mulcon_Dial :: "call list \<Rightarrow> (error + Conn) list \<Rightarrow> int \<Rightarrow> string \<Rightarrow> string \<Rightarrow> error + Conn"
  mulcon_Listen :: "call list \<Rightarrow> Conn \<Rightarrow> string \<Rightarrow> string \<Rightarrow> error + Conn"
  kcp_NewConn :: "call list \<Rightarrow> string \<Rightarrow> BlockCrypt \<Rightarrow> int \<Rightarrow> int \<Rightarrow> Conn \<Rightarrow> error + UDPSession"
  kcp_ServeConn :: "call list \<Rightarrow> BlockCrypt \<Rightarrow> int \<Rightarrow> int \<Rightarrow> Conn \<Rightarrow> error + Listener"

text \<open>A call into a library: its answer, and the call appended to the log.\<close>

definition called :: "call \<Rightarrow> world \<Rightarrow> world" where
  "called c w = w\<lparr>calls := calls w @ [c]\<rparr>"

definition ResolveUDPAddr :: "env \<Rightarrow> string \<Rightarrow> string \<Rightarrow> world \<Rightarrow> (error + UDPAddr) \<times> world" where
  "ResolveUDPAddr env network address w =
     (net_ResolveUDPAddr env (calls w) network address,
      called (Call_ResolveUDPAddr network address) w)"

definition DialUDP :: "env \<Rightarrow> string \<Rightarrow> UDPAddr option \<Rightarrow> UDPAddr \<Rightarrow> world \<Rightarrow> (error + UDPConn) \<times> world" where
  "DialUDP env network laddr raddr w =
     (net_DialUDP env (calls w) network laddr raddr, called (Call_DialUDP network laddr raddr) w)"

definition ListenUDP :: "env \<Rightarrow> string \<Rightarrow> UDPAddr \<Rightarrow> world \<Rightarrow> (error + UDPConn) \<times> world" where
  "ListenUDP env network laddr w =
     (net_ListenUDP env (calls w) network laddr, called (Call_ListenUDP network laddr) w)"

definition DialRAW :: "env \<Rightarrow> string \<Rightarrow> world \<Rightarrow> (error + RAWConn) \<times> world" where
  "DialRAW env address w =
     (raw_DialRAW env (raw w) (calls w) address, called (Call_DialRAW address) w)"

definition ListenRAW :: "env \<Rightarrow> string \<Rightarrow> world \<Rightarrow> (error + RAWListener) \<times> world" where
  "ListenRAW env address w =
     (raw_ListenRAW env (raw w) (calls w) address, called (Call_ListenRAW address) w)"

definition NewConn ::
  "env \<Rightarrow> string \<Rightarrow> BlockCrypt \<Rightarrow> int \<Rightarrow> int \<Rightarrow> Conn \<Rightarrow> world \<Rightarrow> (error + UDPSession) \<times> world" where
  "NewConn env raddr block dataShards parityShards conn w =
     (kcp_NewConn env (calls w) raddr block dataShards parityShards conn,
      called (Call_NewConn raddr block dataShards parityShards conn) w)"

definition ServeConn ::
  "env \<Rightarrow> BlockCrypt \<Rightarrow> int \<Rightarrow> int \<Rightarrow> Conn \<Rightarrow> world \<Rightarrow> (error + Listener) \<times> world" where
  "ServeConn env block dataShards parityShards conn w =
     (kcp_ServeConn env (calls w) block dataShards parityShards conn,
      called (Call_ServeConn block dataShards parityShards conn) w)"

definition mulconListen ::
  "env \<Rightarrow> Conn \<Rightarrow> string \<Rightarrow> string \<Rightarrow> world \<Rightarrow> (error + Conn) \<times> world" where
  "mulconListen env conn method password w =
     (mulcon_Listen env (calls w) conn method password,
      called (Call_mulconListen conn method password) w)"

text \<open>\<^verbatim>\<open>mulcon.Dial\<close> calls the dialer it is given, each call in the state the last one left.\<close>

fun invoke :: "(world \<Rightarrow> (error + Conn) \<times> world) \<Rightarrow> nat \<Rightarrow> world \<Rightarrow> (error + Conn) list \<times> world" where
  "invoke dialer 0 w = ([], w)"
| "invoke dialer (Suc k) w =
     (case dialer w of (r, w1) \<Rightarrow>
        (case invoke dialer k w1 of (rs, w2) \<Rightarrow> (r # rs, w2)))"

definition mulconDial ::
  "env \<Rightarrow> (world \<Rightarrow> (error + Conn) \<times> world) \<Rightarrow> int \<Rightarrow> string \<Rightarrow> string \<Rightarrow> world \<Rightarrow>
     (error + Conn) \<times> world" where
  "mulconDial env dialer n method password w =
     (let w0 = called (Call_mulconDial n method password) w in
      case invoke dialer (mulcon_Dial_invocations env (calls w0) n method password) w0 of
        (rs, w1) \<Rightarrow> (mulcon_Dial env (calls w1) rs n method password, w1))"

subsection \<open>The address check\<close>

definition checkAddr :: "env \<Rightarrow> string \<Rightarrow> error option" where
  "checkAddr env addr =
     (case net_SplitHostPort env addr of
        Inl err \<Rightarrow> Some err
      | Inr (host, _) \<Rightarrow>
          if length host = 0 then Some (Errorf ''You must set the addr to ip:port'')
          else if host = ''0.0.0.0'' then Some (Errorf ''You can't set host to 0.0.0.0'')
          else None)"

subsection \<open>The six entry points\<close>

definition mulconMethod :: string where
  "mulconMethod = ''chacha20-ietf''"

definition DialWithOptions ::
  "env \<Rightarrow> string \<Rightarrow> BlockCrypt \<Rightarrow> int \<Rightarrow> int \<Rightarrow> world \<Rightarrow> (error + UDPSession) \<times> world" where
  "DialWithOptions env raddr block dataShards parityShards w =
     (case checkAddr env raddr of
        Some err \<Rightarrow> (Inl (Wrap err ''checkAddr''), w)
      | None \<Rightarrow>
          (case DialRAW env raddr w of
             (Inl err, w1) \<Rightarrow> (Inl (Wrap err ''net.DialRAW''), w1)
           | (Inr conn, w1) \<Rightarrow>
               NewConn env raddr block dataShards parityShards (RawConn conn)
                 (putMSSByAddr (LocalAddr conn) (RemoteAddr conn) (GetMSS conn) w1)))"

text \<open>
  The two closures \<^verbatim>\<open>dialer\<close>, with the variable each captures as a parameter. Either
  returns what the library returned, as a \<^verbatim>\<open>net.Conn\<close>.
\<close>

definition dialer_udp :: "env \<Rightarrow> UDPAddr \<Rightarrow> world \<Rightarrow> (error + Conn) \<times> world" where
  "dialer_udp env udpaddr w =
     (case DialUDP env ''udp4'' None udpaddr w of
        (rawconn, w1) \<Rightarrow> (map_sum id UdpConn rawconn, w1))"

definition dialer_raw :: "env \<Rightarrow> string \<Rightarrow> world \<Rightarrow> (error + Conn) \<times> world" where
  "dialer_raw env raddr w =
     (case DialRAW env raddr w of
        (rawconn, w1) \<Rightarrow> (map_sum id RawConn rawconn, w1))"

definition DialMulWithOptions_udp ::
  "env \<Rightarrow> string \<Rightarrow> BlockCrypt \<Rightarrow> int \<Rightarrow> int \<Rightarrow> world \<Rightarrow> (error + UDPSession) \<times> world" where
  "DialMulWithOptions_udp env raddr block dataShards parityShards w =
     (case ResolveUDPAddr env ''udp4'' raddr w of
        (Inl err, w1) \<Rightarrow> (Inl err, w1)
      | (Inr udpaddr, w1) \<Rightarrow>
          (case mulconDial env (dialer_udp env udpaddr) 10 mulconMethod ''123'' w1 of
             (Inl err, w2) \<Rightarrow> (Inl (Wrap err ''DialMulWithOptions''), w2)
           | (Inr conn, w2) \<Rightarrow> NewConn env raddr block dataShards parityShards conn w2))"

definition DialMulWithOptions ::
  "env \<Rightarrow> string \<Rightarrow> BlockCrypt \<Rightarrow> int \<Rightarrow> int \<Rightarrow> string \<Rightarrow> int \<Rightarrow> world \<Rightarrow>
     (error + UDPSession) \<times> world" where
  "DialMulWithOptions env raddr block dataShards parityShards password mulconn w =
     (case checkAddr env raddr of
        Some err \<Rightarrow> (Inl (Wrap err ''checkAddr''), w)
      | None \<Rightarrow>
          (case mulconDial env (dialer_raw env raddr) mulconn mulconMethod password w of
             (Inl err, w1) \<Rightarrow> (Inl (Wrap err ''DialMulWithOptions''), w1)
           | (Inr conn, w1) \<Rightarrow> NewConn env raddr block dataShards parityShards conn w1))"

definition ListenWithOptions ::
  "env \<Rightarrow> string \<Rightarrow> BlockCrypt \<Rightarrow> int \<Rightarrow> int \<Rightarrow> world \<Rightarrow> (error + Listener) \<times> world" where
  "ListenWithOptions env laddr block dataShards parityShards w =
     (case checkAddr env laddr of
        Some err \<Rightarrow> (Inl (Wrap err ''checkAddr''), w)
      | None \<Rightarrow>
          (case ListenRAW env laddr w of
             (Inl err, w1) \<Rightarrow> (Inl (Wrap err ''net.ListenRAW''), w1)
           | (Inr conn, w1) \<Rightarrow>
               ServeConn env block dataShards parityShards (RawListener conn)
                 (putListenerByAddr (LocalAddr_lis conn) (Some conn) w1)))"

definition ListenMulWithOptions_udp ::
  "env \<Rightarrow> string \<Rightarrow> BlockCrypt \<Rightarrow> int \<Rightarrow> int \<Rightarrow> world \<Rightarrow> (error + Listener) \<times> world" where
  "ListenMulWithOptions_udp env laddr block dataShards parityShards w =
     (case ResolveUDPAddr env ''udp4'' laddr w of
        (Inl err, w1) \<Rightarrow> (Inl err, w1)
      | (Inr udpaddr, w1) \<Rightarrow>
          (case ListenUDP env ''udp4'' udpaddr w1 of
             (Inl err, w2) \<Rightarrow> (Inl (Wrap err ''net.ListenRAW''), w2)
           | (Inr conn, w2) \<Rightarrow>
               (case mulconListen env (UdpConn conn) mulconMethod ''123'' w2 of
                  (Inl err, w3) \<Rightarrow> (Inl (Wrap err ''ListenMulWithOptions''), w3)
                | (Inr listener, w3) \<Rightarrow>
                    ServeConn env block dataShards parityShards listener w3)))"

definition ListenMulWithOptions ::
  "env \<Rightarrow> string \<Rightarrow> BlockCrypt \<Rightarrow> int \<Rightarrow> int \<Rightarrow> string \<Rightarrow> world \<Rightarrow> (error + Listener) \<times> world" where
  "ListenMulWithOptions env laddr block dataShards parityShards password w =
     (case ListenRAW env laddr w of
        (Inl err, w1) \<Rightarrow> (Inl (Wrap err ''net.ListenRAW''), w1)
      | (Inr conn, w1) \<Rightarrow>
          (case mulconListen env (RawListener conn) mulconMethod password w1 of
             (Inl err, w2) \<Rightarrow> (Inl (Wrap err ''ListenMulWithOptions''), w2)
           | (Inr listener, w2) \<Rightarrow>
               ServeConn env block dataShards parityShards listener w2))"

subsection \<open>The setters\<close>

definition SetNoHTTP :: "bool \<Rightarrow> world \<Rightarrow> world" where
  "SetNoHTTP v w = w\<lparr>raw := (raw w)\<lparr>NoHTTP := v\<rparr>\<rparr>"

definition SetHost :: "string \<Rightarrow> world \<Rightarrow> world" where
  "SetHost v w = w\<lparr>raw := (raw w)\<lparr>Host := v\<rparr>\<rparr>"

definition SetDSCP :: "int \<Rightarrow> world \<Rightarrow> world" where
  "SetDSCP v w = w\<lparr>raw := (raw w)\<lparr>DSCP := v\<rparr>\<rparr>"

definition SetIgnRST :: "bool \<Rightarrow> world \<Rightarrow> world" where
  "SetIgnRST v w = w\<lparr>raw := (raw w)\<lparr>IgnRST := v\<rparr>\<rparr>"

definition SetMixed :: "bool \<Rightarrow> world \<Rightarrow> world" where
  "SetMixed v w = w\<lparr>raw := (raw w)\<lparr>Mixed := v\<rparr>\<rparr>"

subsection \<open>Sequences of calls\<close>

text \<open>
  What a client of the package can do to its state: call an entry point or a setter.
  (The two lookups only read.)
\<close>

datatype api =
    Api_DialWithOptions string BlockCrypt int int
  | Api_DialMulWithOptions_udp string BlockCrypt int int
  | Api_DialMulWithOptions string BlockCrypt int int string int
  | Api_ListenWithOptions string BlockCrypt int int
  | Api_ListenMulWithOptions_udp string BlockCrypt int int
  | Api_ListenMulWithOptions string BlockCrypt int int string
  | Api_SetNoHTTP bool
  | Api_SetHost string
  | Api_SetDSCP int
  | Api_SetIgnRST bool
  | Api_SetMixed bool

fun exec :: "env \<Rightarrow> api \<Rightarrow> world \<Rightarrow> world" where
  "exec env (Api_DialWithOptions raddr b d p) w = snd (DialWithOptions env raddr b d p w)"
| "exec env (Api_DialMulWithOptions_udp raddr b d p) w = snd (DialMulWithOptions_udp env raddr b d p w)"
| "exec env (Api_DialMulWithOptions raddr b d p pw n) w = snd (DialMulWithOptions env raddr b d p pw n w)"
| "exec env (Api_ListenWithOptions laddr b d p) w = snd (ListenWithOptions env laddr b d p w)"
| "exec env (Api_ListenMulWithOptions_udp laddr b d p) w = snd (ListenMulWithOptions_udp env laddr b d p w)"
| "exec env (Api_ListenMulWithOptions laddr b d p pw) w = snd (ListenMulWithOptions env laddr b d p pw w)"
| "exec env (Api_SetNoHTTP v) w = SetNoHTTP v w"
| "exec env (Api_SetHost v) w = SetHost v w"
| "exec env (Api_SetDSCP v) w = SetDSCP v w"
| "exec env (Api_SetIgnRST v) w = SetIgnRST v w"
| "exec env (Api_SetMixed v) w = SetMixed v w"

fun run :: "env \<Rightarrow> api list \<Rightarrow> world \<Rightarrow> world" where
  "run env [] w = w"
| "run env (a # as) w = run env as (exec env a w)"

text \<open>
  The raw connection a call obtains and records the MSS of: only a plain dial does, once
  the address has passed the check and the raw dial has succeeded. Likewise the raw
  listener a plain listen obtains and records.
\<close>

fun dialled :: "env \<Rightarrow> api \<Rightarrow> world \<Rightarrow> RAWConn option" where
  "dialled env (Api_DialWithOptions raddr b d p) w =
     (case checkAddr env raddr of
        Some err \<Rightarrow> None
      | None \<Rightarrow> (case fst (DialRAW env raddr w) of Inl err \<Rightarrow> None | Inr conn \<Rightarrow> Some conn))"
| "dialled env a w = None"

fun listened :: "env \<Rightarrow> api \<Rightarrow> world \<Rightarrow> RAWListener option" where
  "listened env (Api_ListenWithOptions laddr b d p) w =
     (case checkAddr env laddr of
        Some err \<Rightarrow> None
      | None \<Rightarrow> (case fst (ListenRAW env laddr w) of Inl err \<Rightarrow> None | Inr conn \<Rightarrow> Some conn))"
| "listened env a w = None"

text \<open>
  No plain dial of the sequence, run from \<open>w\<close>, records an entry under the key of the
  pair \<open>(L, R)\<close>; no plain listen of the sequence records one under the key of \<open>A\<close>.
\<close>

fun never_dialled :: "env \<Rightarrow> Addr \<Rightarrow> Addr \<Rightarrow> api list \<Rightarrow> world \<Rightarrow> bool" where
  "never_dialled env L R [] w = True"
| "never_dialled env L R (a # as) w =
     ((case dialled env a w of
         None \<Rightarrow> True
       | Some conn \<Rightarrow> String (LocalAddr conn) @ String (RemoteAddr conn) \<noteq> String L @ String R)
      \<and> never_dialled env L R as (exec env a w))"

fun never_listened :: "env \<Rightarrow> Addr \<Rightarrow> api list \<Rightarrow> world \<Rightarrow> bool" where
  "never_listened env A [] w = True"
| "never_listened env A (a # as) w =
     ((case listened env a w of
         None \<Rightarrow> True
       | Some conn \<Rightarrow> String (LocalAddr_lis conn) \<noteq> String A)
      \<and> never_listened env A as (exec env a w))"

subsection \<open>Stage labels\<close>

text \<open>
  The messages the package passes to \<^verbatim>\<open>errors.Wrap\<close>. An error is annotated when it
  is wrapped with one of them.
\<close>

definition labels :: "string list" where
  "labels = [''checkAddr'', ''net.DialRAW'', ''net.ListenRAW'', ''DialMulWithOptions'',
             ''ListenMulWithOptions'']"

fun annotated :: "error \<Rightarrow> bool" where
  "annotated (Wrap err msg) = (msg \<in> set labels)"
| "annotated err = False"

subsection \<open>A stub environment\<close>

text \<open>
  \<^verbatim>\<open>net.SplitHostPort\<close> as the Go standard library has it (it is not part of this
  repository): the port follows the last colon; a host in brackets ends at the first
  closing bracket, which must come right before that colon; a host without brackets has
  no colon; no other bracket may occur. Where the first byte is read the string holds
  a colon, and where the byte after the closing bracket is read the bracket is not the
  last byte: both reads are in range, as in Go.
\<close>

fun IndexByte :: "string \<Rightarrow> char \<Rightarrow> nat option" where
  "IndexByte [] c = None"
| "IndexByte (x # xs) c = (if x = c then Some 0 else map_option Suc (IndexByte xs c))"

definition LastIndexByte :: "string \<Rightarrow> char \<Rightarrow> nat option" where
  "LastIndexByte s c = map_option (\<lambda>i. length s - 1 - i) (IndexByte (rev s) c)"

definition SplitHostPort :: "string \<Rightarrow> error + string \<times> string" where
  "SplitHostPort hostport =
     (let missingPort = ''missing port in address'';
          tooManyColons = ''too many colons in address'';
          rest = (\<lambda>host j k i.
            if IndexByte (drop j hostport) CHR ''['' \<noteq> None
              then Inl (AddrError ''unexpected '[' in address'' hostport)
            else if IndexByte (drop k hostport) CHR '']'' \<noteq> None
              then Inl (AddrError ''unexpected ']' in address'' hostport)
            else Inr (host, drop (i + 1) hostport))
      in case LastIndexByte hostport CHR '':'' of
           None \<Rightarrow> Inl (AddrError missingPort hostport)
         | Some i \<Rightarrow>
             if hd hostport = CHR ''['' then
               (case IndexByte hostport CHR '']'' of
                  None \<Rightarrow> Inl (AddrError ''missing ']' in address'' hostport)
                | Some e \<Rightarrow>
                    if e + 1 = length hostport then Inl (AddrError missingPort hostport)
                    else if e + 1 = i then rest (take (e - 1) (drop 1 hostport)) 1 (e + 1) i
                    else if hostport ! (e + 1) = CHR '':''
                      then Inl (AddrError tooManyColons hostport)
                    else Inl (AddrError missingPort hostport))
             else
               (let host = take i hostport in
                if IndexByte host CHR '':'' \<noteq> None then Inl (AddrError tooManyColons hostport)
                else rest host 0 0 i))"

text \<open>
  Libraries that always succeed, as a stub in a test would: every raw connection goes
  from \<^verbatim>\<open>192.168.0.2:40000\<close> to the address dialled and reports an MSS of 1400, every
  raw listener is bound to the address asked for, \<^verbatim>\<open>mulcon.Dial\<close> calls its dialer as
  often as it was asked to. UDP address resolution fails as \<^verbatim>\<open>net.SplitHostPort\<close> does.
\<close>

definition stub :: env where
  "stub = \<lparr>
     net_SplitHostPort = SplitHostPort,
     net_ResolveUDPAddr = (\<lambda>h network address.
        case SplitHostPort address of
          Inl err \<Rightarrow> Inl err
        | Inr hp \<Rightarrow> Inr \<lparr>IP = [127, 0, 0, 1], Port = 4000, Zone = []\<rparr>),
     net_DialUDP = (\<lambda>h network laddr raddr. Inr (UDPConn (length h))),
     net_ListenUDP = (\<lambda>h network laddr. Inr (UDPConn (length h))),
     raw_DialRAW = (\<lambda>r h address.
        Inr \<lparr>LocalAddr = \<lparr>Network = ''tcp'', String = ''192.168.0.2:40000''\<rparr>,
             RemoteAddr = \<lparr>Network = ''tcp'', String = address\<rparr>, GetMSS = 1400\<rparr>),
     raw_ListenRAW = (\<lambda>r h address.
        Inr \<lparr>handle = length h, LocalAddr_lis = \<lparr>Network = ''tcp'', String = address\<rparr>\<rparr>),
     mulcon_Dial_invocations = (\<lambda>h n method password. nat n),
     mulcon_Dial = (\<lambda>h rs n method password. Inr (MulConn (length h))),
     mulcon_Listen = (\<lambda>h conn method password. Inr (MulConn (length h))),
     kcp_NewConn = (\<lambda>h raddr block dataShards parityShards conn. Inr (UDPSession (length h))),
     kcp_ServeConn = (\<lambda>h block dataShards parityShards conn. Inr (Listener (length h)))\<rparr>"

text \<open>The stub with a raw transport that refuses every dial and every listen.\<close>

definition refusing :: env where
  "refusing = stub\<lparr>
     raw_DialRAW := (\<lambda>r h address. Inl (Other ''connection refused'')),
     raw_ListenRAW := (\<lambda>r h address. Inl (Other ''address already in use''))\<rparr>"

text \<open>The stub with a multiplexer that fails.\<close>

definition unmultiplexed :: env where
  "unmultiplexed = stub\<lparr>
     mulcon_Dial := (\<lambda>h rs n method password. Inl (Other ''no connection'')),
     mulcon_Listen := (\<lambda>h conn method password. Inl (Other ''bad method''))\<rparr>"

text \<open>The stub with a session engine that rejects every connection and listener.\<close>

definition rejecting :: env where
  "rejecting = stub\<lparr>
     kcp_NewConn := (\<lambda>h raddr block dataShards parityShards conn. Inl (Other ''session rejected'')),
     kcp_ServeConn := (\<lambda>h block dataShards parityShards conn. Inl (Other ''session rejected''))\<rparr>"

section \<open>Facts about the model\<close>

subsection \<open>The log and the caches under the library calls\<close>

lemma called_simps [simp]:
  "mssCache (called c w) = mssCache w"
  "lisCache (called c w) = lisCache w"
  "raw (called c w) = raw w"
  "calls (called c w) = calls w @ [c]"
  by (simp_all add: called_def)

lemma put_simps [simp]:
  "mssCache (putMSSByAddr L R m w) = (mssCache w)(String L @ String R \<mapsto> m)"
  "lisCache (putMSSByAddr L R m w) = lisCache w"
  "raw (putMSSByAddr L R m w) = raw w"
  "calls (putMSSByAddr L R m w) = calls w"
  "mssCache (putListenerByAddr A lis w) = mssCache w"
  "lisCache (putListenerByAddr A lis w) = (lisCache w)(String A \<mapsto> lis)"
  "raw (putListenerByAddr A lis w) = raw w"
  "calls (putListenerByAddr A lis w) = calls w"
  by (simp_all add: putMSSByAddr_def putListenerByAddr_def)

lemma lib_snd [simp]:
  "snd (ResolveUDPAddr env network address w) = called (Call_ResolveUDPAddr network address) w"
  "snd (DialUDP env network la ra w) = called (Call_DialUDP network la ra) w"
  "snd (ListenUDP env network ua w) = called (Call_ListenUDP network ua) w"
  "snd (DialRAW env address w) = called (Call_DialRAW address) w"
  "snd (ListenRAW env address w) = called (Call_ListenRAW address) w"
  "snd (NewConn env raddr b d p conn w) = called (Call_NewConn raddr b d p conn) w"
  "snd (ServeConn env b d p conn w) = called (Call_ServeConn b d p conn) w"
  "snd (mulconListen env conn method password w) = called (Call_mulconListen conn method password) w"
  by (simp_all add: ResolveUDPAddr_def DialUDP_def ListenUDP_def DialRAW_def ListenRAW_def
      NewConn_def ServeConn_def mulconListen_def)

lemma dialer_snd [simp]:
  "snd (dialer_raw env raddr v) = called (Call_DialRAW raddr) v"
  "snd (dialer_udp env ua v) = called (Call_DialUDP ''udp4'' None ua) v"
  by (simp_all add: dialer_raw_def dialer_udp_def DialRAW_def DialUDP_def)

text \<open>
  What every call of the dialer leaves alone, \<^verbatim>\<open>mulcon.Dial\<close> leaves alone, however often
  it calls the dialer.
\<close>

lemma invoke_frame:
  assumes "\<And>v. f (snd (dialer v)) = f v"
  shows "f (snd (invoke dialer k w)) = f w"
proof (induction k arbitrary: w)
  case 0
  show ?case by simp
next
  case (Suc k)
  obtain r w1 where d: "dialer w = (r, w1)" by (cases "dialer w")
  obtain rs w2 where i: "invoke dialer k w1 = (rs, w2)" by (cases "invoke dialer k w1")
  have "f w2 = f w1" using Suc.IH [of w1] i by simp
  moreover have "f w1 = f w" using assms [of w] d by simp
  ultimately show ?case using d i by simp
qed

lemma mulconDial_frame:
  assumes "\<And>v. f (snd (dialer v)) = f v" and "\<And>c v. f (called c v) = f v"
  shows "f (snd (mulconDial env dialer n method password w)) = f w"
proof -
  let ?w0 = "called (Call_mulconDial n method password) w"
  let ?k = "mulcon_Dial_invocations env (calls ?w0) n method password"
  have "snd (mulconDial env dialer n method password w) = snd (invoke dialer ?k ?w0)"
    by (simp add: mulconDial_def Let_def split: prod.splits)
  then show ?thesis using invoke_frame [of f dialer ?k ?w0, OF assms(1)] assms(2) by simp
qed

text \<open>
  The log under \<^verbatim>\<open>mulcon.Dial\<close>: its own call, then one call for every time it calls a
  dialer that makes one library call.
\<close>

lemma invoke_calls:
  assumes "\<And>v. calls (snd (dialer v)) = calls v @ [c]"
  shows "calls (snd (invoke dialer k w)) = calls w @ replicate k c"
proof (induction k arbitrary: w)
  case 0
  show ?case by simp
next
  case (Suc k)
  obtain r w1 where d: "dialer w = (r, w1)" by (cases "dialer w")
  obtain rs w2 where i: "invoke dialer k w1 = (rs, w2)" by (cases "invoke dialer k w1")
  have "calls w1 = calls w @ [c]" using assms [of w] d by simp
  moreover have "calls w2 = calls w1 @ replicate k c" using Suc.IH [of w1] i by simp
  ultimately show ?case using d i by (simp add: replicate_app_Cons_same)
qed

lemma mulconDial_calls:
  assumes "\<And>v. calls (snd (dialer v)) = calls v @ [c]"
  shows "\<exists>k. calls (snd (mulconDial env dialer n method password w))
           = calls w @ Call_mulconDial n method password # replicate k c"
proof -
  let ?w0 = "called (Call_mulconDial n method password) w"
  let ?k = "mulcon_Dial_invocations env (calls ?w0) n method password"
  have "snd (mulconDial env dialer n method password w) = snd (invoke dialer ?k ?w0)"
    by (simp add: mulconDial_def Let_def split: prod.splits)
  then have "calls (snd (mulconDial env dialer n method password w))
      = calls w @ Call_mulconDial n method password # replicate ?k c"
    using invoke_calls [of dialer c ?k ?w0, OF assms] by simp
  then show ?thesis by blast
qed

text \<open>The address check is the only reader of \<^verbatim>\<open>net.SplitHostPort\<close>.\<close>

lemma split_irrelevant [simp]:
  "ResolveUDPAddr (env\<lparr>net_SplitHostPort := split\<rparr>) = ResolveUDPAddr env"
  "DialUDP (env\<lparr>net_SplitHostPort := split\<rparr>) = DialUDP env"
  "ListenUDP (env\<lparr>net_SplitHostPort := split\<rparr>) = ListenUDP env"
  "NewConn (env\<lparr>net_SplitHostPort := split\<rparr>) = NewConn env"
  "ServeConn (env\<lparr>net_SplitHostPort := split\<rparr>) = ServeConn env"
  "mulconListen (env\<lparr>net_SplitHostPort := split\<rparr>) = mulconListen env"
  "mulconDial (env\<lparr>net_SplitHostPort := split\<rparr>) = mulconDial env"
  "dialer_udp (env\<lparr>net_SplitHostPort := split\<rparr>) = dialer_udp env"
  by (simp_all add: fun_eq_iff ResolveUDPAddr_def DialUDP_def ListenUDP_def NewConn_def
      ServeConn_def mulconListen_def mulconDial_def dialer_udp_def)

subsection \<open>What the entry points leave alone\<close>

text \<open>
  The four multiplexed entry points change nothing but the log: \<open>f\<close> is any
  observation of the state that a logged call does not change.
\<close>

lemma DialMulWithOptions_frame:
  assumes "\<And>c v. f (called c v) = f v"
  shows "f (snd (DialMulWithOptions env raddr b d p pw n w)) = f w"
proof -
  have m: "f (snd (mulconDial env (dialer_raw env raddr) n mulconMethod pw w)) = f w"
    by (rule mulconDial_frame) (simp_all add: assms)
  show ?thesis
  proof (cases "checkAddr env raddr")
    case (Some err)
    then show ?thesis by (simp add: DialMulWithOptions_def)
  next
    case None
    obtain r w1 where r: "mulconDial env (dialer_raw env raddr) n mulconMethod pw w = (r, w1)"
      by (cases "mulconDial env (dialer_raw env raddr) n mulconMethod pw w")
    with m have "f w1 = f w" by simp
    with None r show ?thesis
      by (cases r) (simp_all add: DialMulWithOptions_def assms)
  qed
qed

lemma DialMulWithOptions_udp_frame:
  assumes "\<And>c v. f (called c v) = f v"
  shows "f (snd (DialMulWithOptions_udp env raddr b d p w)) = f w"
proof -
  obtain a w1 where a: "ResolveUDPAddr env ''udp4'' raddr w = (a, w1)"
    by (cases "ResolveUDPAddr env ''udp4'' raddr w")
  then have w1: "f w1 = f w" using lib_snd(1) [of env "''udp4''" raddr w] assms by simp
  show ?thesis
  proof (cases a)
    case (Inl err)
    with a w1 show ?thesis by (simp add: DialMulWithOptions_udp_def)
  next
    case (Inr udpaddr)
    have m: "f (snd (mulconDial env (dialer_udp env udpaddr) 10 mulconMethod ''123'' w1)) = f w1"
      by (rule mulconDial_frame) (simp_all add: assms)
    obtain r w2 where r: "mulconDial env (dialer_udp env udpaddr) 10 mulconMethod ''123'' w1 = (r, w2)"
      by (cases "mulconDial env (dialer_udp env udpaddr) 10 mulconMethod ''123'' w1")
    with m w1 have "f w2 = f w" by simp
    with Inr a r show ?thesis
      by (cases r) (simp_all add: DialMulWithOptions_udp_def assms)
  qed
qed

lemma ListenMulWithOptions_frame:
  assumes "\<And>c v. f (called c v) = f v"
  shows "f (snd (ListenMulWithOptions env laddr b d p pw w)) = f w"
  by (simp add: ListenMulWithOptions_def ListenRAW_def mulconListen_def ServeConn_def assms
      split: sum.splits prod.splits)

lemma ListenMulWithOptions_udp_frame:
  assumes "\<And>c v. f (called c v) = f v"
  shows "f (snd (ListenMulWithOptions_udp env laddr b d p w)) = f w"
  by (simp add: ListenMulWithOptions_udp_def ResolveUDPAddr_def ListenUDP_def mulconListen_def
      ServeConn_def assms split: sum.splits prod.splits)

text \<open>The plain entry points write one cache each, and only with what they obtained.\<close>

lemma DialWithOptions_mssCache:
  "mssCache (snd (DialWithOptions env raddr b d p w)) =
     (case dialled env (Api_DialWithOptions raddr b d p) w of
        None \<Rightarrow> mssCache w
      | Some conn \<Rightarrow> (mssCache w)(String (LocalAddr conn) @ String (RemoteAddr conn) \<mapsto> GetMSS conn))"
  by (simp add: DialWithOptions_def DialRAW_def NewConn_def split: option.splits sum.splits)

lemma DialWithOptions_lisCache:
  "lisCache (snd (DialWithOptions env raddr b d p w)) = lisCache w"
  by (simp add: DialWithOptions_def DialRAW_def NewConn_def split: option.splits sum.splits)

lemma ListenWithOptions_lisCache:
  "lisCache (snd (ListenWithOptions env laddr b d p w)) =
     (case listened env (Api_ListenWithOptions laddr b d p) w of
        None \<Rightarrow> lisCache w
      | Some conn \<Rightarrow> (lisCache w)(String (LocalAddr_lis conn) \<mapsto> Some conn))"
  by (simp add: ListenWithOptions_def ListenRAW_def ServeConn_def split: option.splits sum.splits)

lemma ListenWithOptions_mssCache:
  "mssCache (snd (ListenWithOptions env laddr b d p w)) = mssCache w"
  by (simp add: ListenWithOptions_def ListenRAW_def ServeConn_def split: option.splits sum.splits)

lemma exec_mssCache:
  "mssCache (exec env a w) =
     (case dialled env a w of
        None \<Rightarrow> mssCache w
      | Some conn \<Rightarrow> (mssCache w)(String (LocalAddr conn) @ String (RemoteAddr conn) \<mapsto> GetMSS conn))"
proof (cases a)
  case (Api_DialWithOptions raddr b d p)
  then show ?thesis using DialWithOptions_mssCache [of env raddr b d p w] by simp
qed (simp_all add: DialMulWithOptions_frame DialMulWithOptions_udp_frame ListenMulWithOptions_frame
      ListenMulWithOptions_udp_frame ListenWithOptions_mssCache
      SetNoHTTP_def SetHost_def SetDSCP_def SetIgnRST_def SetMixed_def)

lemma exec_lisCache:
  "lisCache (exec env a w) =
     (case listened env a w of
        None \<Rightarrow> lisCache w
      | Some conn \<Rightarrow> (lisCache w)(String (LocalAddr_lis conn) \<mapsto> Some conn))"
proof (cases a)
  case (Api_ListenWithOptions laddr b d p)
  then show ?thesis using ListenWithOptions_lisCache [of env laddr b d p w] by simp
qed (simp_all add: DialMulWithOptions_frame DialMulWithOptions_udp_frame ListenMulWithOptions_frame
      ListenMulWithOptions_udp_frame DialWithOptions_lisCache
      SetNoHTTP_def SetHost_def SetDSCP_def SetIgnRST_def SetMixed_def)

text \<open>
  A plain dial has recorded the MSS once the raw dial has succeeded, whatever becomes of
  the session; a plain listen likewise.
\<close>

lemma DialWithOptions_recorded:
  assumes "checkAddr env raddr = None" and "fst (DialRAW env raddr w) = Inr conn"
  shows "GetMSSByAddr (LocalAddr conn) (RemoteAddr conn) (snd (DialWithOptions env raddr b d p w))
           = GetMSS conn"
  using assms by (simp add: GetMSSByAddr_def DialWithOptions_mssCache)

lemma ListenWithOptions_recorded:
  assumes "checkAddr env laddr = None" and "fst (ListenRAW env laddr w) = Inr conn"
  shows "GetListenerByAddr (LocalAddr_lis conn) (snd (ListenWithOptions env laddr b d p w))
           = Some conn"
  using assms by (simp add: GetListenerByAddr_def ListenWithOptions_lisCache)

text \<open>
  The library calls of a multiplexed dial over UDP, in order: the resolution; if it
  succeeds, the multiplexer with its fixed parameters and the UDP dials of its dialer;
  and, if the multiplexer succeeds, the session.
\<close>

lemma DialMulWithOptions_udp_calls:
  "\<exists>cs. calls (snd (DialMulWithOptions_udp env raddr b d p w))
           = calls w @ Call_ResolveUDPAddr ''udp4'' raddr # cs
      \<and> (case fst (ResolveUDPAddr env ''udp4'' raddr w) of
            Inl err \<Rightarrow> cs = []
          | Inr udpaddr \<Rightarrow>
              (\<exists>k tl. cs = Call_mulconDial 10 mulconMethod ''123''
                          # replicate k (Call_DialUDP ''udp4'' None udpaddr) @ tl
                 \<and> (tl = [] \<or> (\<exists>conn. tl = [Call_NewConn raddr b d p conn]))))"
proof -
  let ?w1 = "called (Call_ResolveUDPAddr ''udp4'' raddr) w"
  have r: "ResolveUDPAddr env ''udp4'' raddr w = (fst (ResolveUDPAddr env ''udp4'' raddr w), ?w1)"
    by (simp add: ResolveUDPAddr_def)
  show ?thesis
  proof (cases "fst (ResolveUDPAddr env ''udp4'' raddr w)")
    case (Inl err)
    with r show ?thesis by (simp add: DialMulWithOptions_udp_def)
  next
    case (Inr udpaddr)
    let ?m = "mulconDial env (dialer_udp env udpaddr) 10 mulconMethod ''123'' ?w1"
    obtain k where k: "calls (snd ?m) = calls ?w1 @ Call_mulconDial 10 mulconMethod ''123'' #
        replicate k (Call_DialUDP ''udp4'' None udpaddr)"
      using mulconDial_calls [of "dialer_udp env udpaddr" "Call_DialUDP ''udp4'' None udpaddr"
          env 10 mulconMethod "''123''" ?w1]
      by auto
    obtain x w2 where m: "?m = (x, w2)" by (cases ?m)
    with k have w2: "calls w2 = calls w @ Call_ResolveUDPAddr ''udp4'' raddr #
        Call_mulconDial 10 mulconMethod ''123'' # replicate k (Call_DialUDP ''udp4'' None udpaddr)"
      by simp
    show ?thesis
    proof (cases x)
      case (Inl err)
      with r Inr m w2 have "calls (snd (DialMulWithOptions_udp env raddr b d p w)) =
          calls w @ Call_ResolveUDPAddr ''udp4'' raddr # Call_mulconDial 10 mulconMethod ''123''
            # replicate k (Call_DialUDP ''udp4'' None udpaddr) @ []"
        by (simp add: DialMulWithOptions_udp_def)
      with Inr show ?thesis by (simp del: append_Nil2) blast
    next
      case (Inr conn)
      with r \<open>fst (ResolveUDPAddr env ''udp4'' raddr w) = Inr udpaddr\<close> m w2
      have "calls (snd (DialMulWithOptions_udp env raddr b d p w)) =
          calls w @ Call_ResolveUDPAddr ''udp4'' raddr # Call_mulconDial 10 mulconMethod ''123''
            # replicate k (Call_DialUDP ''udp4'' None udpaddr) @ [Call_NewConn raddr b d p conn]"
        by (simp add: DialMulWithOptions_udp_def)
      with \<open>fst (ResolveUDPAddr env ''udp4'' raddr w) = Inr udpaddr\<close> show ?thesis by simp blast
    qed
  qed
qed

text \<open>An entry nobody records stays absent along a sequence of calls.\<close>

lemma never_dialled_absent:
  assumes "never_dialled env L R as w" and "mssCache w (String L @ String R) = None"
  shows "mssCache (run env as w) (String L @ String R) = None"
  using assms
proof (induction as arbitrary: w)
  case Nil
  then show ?case by simp
next
  case (Cons a as)
  from Cons.prems have "mssCache (exec env a w) (String L @ String R) = None"
    by (auto simp: exec_mssCache split: option.splits)
  moreover from Cons.prems have "never_dialled env L R as (exec env a w)" by simp
  ultimately show ?case using Cons.IH by simp
qed

lemma never_listened_absent:
  assumes "never_listened env A as w" and "lisCache w (String A) = None"
  shows "lisCache (run env as w) (String A) = None"
  using assms
proof (induction as arbitrary: w)
  case Nil
  then show ?case by simp
next
  case (Cons a as)
  from Cons.prems have "lisCache (exec env a w) (String A) = None"
    by (auto simp: exec_lisCache split: option.splits)
  moreover from Cons.prems have "never_listened env A as (exec env a w)" by simp
  ultimately show ?case using Cons.IH by simp
qed

subsection \<open>The stub environments, evaluated\<close>

lemma SplitHostPort_examples:
  "SplitHostPort ''10.0.0.1:1234'' = Inr (''10.0.0.1'', ''1234'')"
  "SplitHostPort ''10.0.0.2:1234'' = Inr (''10.0.0.2'', ''1234'')"
  "SplitHostPort ''127.0.0.1:5000'' = Inr (''127.0.0.1'', ''5000'')"
  "SplitHostPort ''0.0.0.0:1234'' = Inr (''0.0.0.0'', ''1234'')"
  "SplitHostPort '':1234'' = Inr ([], ''1234'')"
  "SplitHostPort ''localhost'' = Inl (AddrError ''missing port in address'' ''localhost'')"
  by (simp_all add: SplitHostPort_def LastIndexByte_def)

lemma stub_simps:
  "net_SplitHostPort stub = SplitHostPort"
  "net_ResolveUDPAddr stub h network address =
     (case SplitHostPort address of
        Inl err \<Rightarrow> Inl err
      | Inr hp \<Rightarrow> Inr \<lparr>IP = [127, 0, 0, 1], Port = 4000, Zone = []\<rparr>)"
  "net_DialUDP stub h network la ra = Inr (UDPConn (length h))"
  "net_ListenUDP stub h network ua = Inr (UDPConn (length h))"
  "raw_DialRAW stub r h address =
     Inr \<lparr>LocalAddr = \<lparr>Network = ''tcp'', String = ''192.168.0.2:40000''\<rparr>,
          RemoteAddr = \<lparr>Network = ''tcp'', String = address\<rparr>, GetMSS = 1400\<rparr>"
  "raw_ListenRAW stub r h address =
     Inr \<lparr>handle = length h, LocalAddr_lis = \<lparr>Network = ''tcp'', String = address\<rparr>\<rparr>"
  "mulcon_Dial_invocations stub h n method password = nat n"
  "mulcon_Dial stub h rs n method password = Inr (MulConn (length h))"
  "mulcon_Listen stub h conn method password = Inr (MulConn (length h))"
  "kcp_NewConn stub h raddr b d p conn = Inr (UDPSession (length h))"
  "kcp_ServeConn stub h b d p conn = Inr (Listener (length h))"
  by (simp_all add: stub_def)

lemma refusing_simps:
  "net_SplitHostPort refusing = SplitHostPort"
  "raw_DialRAW refusing r h address = Inl (Other ''connection refused'')"
  "raw_ListenRAW refusing r h address = Inl (Other ''address already in use'')"
  by (simp_all add: refusing_def stub_def)

lemma unmultiplexed_simps:
  "net_SplitHostPort unmultiplexed = SplitHostPort"
  "net_ResolveUDPAddr unmultiplexed = net_ResolveUDPAddr stub"
  "net_DialUDP unmultiplexed = net_DialUDP stub"
  "net_ListenUDP unmultiplexed = net_ListenUDP stub"
  "raw_DialRAW unmultiplexed = raw_DialRAW stub"
  "raw_ListenRAW unmultiplexed = raw_ListenRAW stub"
  "mulcon_Dial_invocations unmultiplexed = mulcon_Dial_invocations stub"
  "mulcon_Dial unmultiplexed h rs n method password = Inl (Other ''no connection'')"
  "mulcon_Listen unmultiplexed h conn method password = Inl (Other ''bad method'')"
  by (simp_all add: unmultiplexed_def stub_def)

lemma rejecting_simps:
  "net_SplitHostPort rejecting = SplitHostPort"
  "net_ResolveUDPAddr rejecting = net_ResolveUDPAddr stub"
  "net_DialUDP rejecting = net_DialUDP stub"
  "net_ListenUDP rejecting = net_ListenUDP stub"
  "raw_DialRAW rejecting = raw_DialRAW stub"
  "raw_ListenRAW rejecting = raw_ListenRAW stub"
  "mulcon_Dial_invocations rejecting = mulcon_Dial_invocations stub"
  "mulcon_Dial rejecting = mulcon_Dial stub"
  "mulcon_Listen rejecting = mulcon_Listen stub"
  "kcp_NewConn rejecting h raddr b d p conn = Inl (Other ''session rejected'')"
  "kcp_ServeConn rejecting h b d p conn = Inl (Other ''session rejected'')"
  by (simp_all add: rejecting_def stub_def)

lemma checkAddr_examples:
  "checkAddr stub ''10.0.0.1:1234'' = None"
  "checkAddr stub ''10.0.0.2:1234'' = None"
  "checkAddr stub ''127.0.0.1:5000'' = None"
  "checkAddr stub ''0.0.0.0:1234'' = Some (Errorf ''You can't set host to 0.0.0.0'')"
  "checkAddr stub '':1234'' = Some (Errorf ''You must set the addr to ip:port'')"
  "checkAddr stub ''localhost'' = Some (AddrError ''missing port in address'' ''localhost'')"
  by (simp_all add: checkAddr_def stub_simps SplitHostPort_examples)

lemma checkAddr_other:
  "checkAddr refusing = checkAddr stub"
  "checkAddr unmultiplexed = checkAddr stub"
  "checkAddr rejecting = checkAddr stub"
  by (simp_all add: fun_eq_iff checkAddr_def refusing_simps unmultiplexed_simps rejecting_simps stub_simps)

section \<open>The claims\<close>

subsection \<open>C1: the address check\<close>

text \<open>
  Claim C1. \<open>checkAddr\<close> fails exactly when the address cannot be split into host and
  port, or the host is empty, or the host is \<^verbatim>\<open>0.0.0.0\<close>; on every other address it
  succeeds. It returns an error or nothing, and has no state to change: it neither
  takes nor returns the package state. The statement holds for whatever function
  splits the address; the witness runs it with \<^verbatim>\<open>net.SplitHostPort\<close>.
\<close>

theorem checkAddr_fails_iff:
  "(checkAddr env addr \<noteq> None) =
     ((\<exists>err. net_SplitHostPort env addr = Inl err)
      \<or> (\<exists>port. net_SplitHostPort env addr = Inr ([], port))
      \<or> (\<exists>port. net_SplitHostPort env addr = Inr (''0.0.0.0'', port)))"
  by (auto simp: checkAddr_def split: sum.splits prod.splits)

theorem checkAddr_fails_iff_witness:
  "checkAddr stub ''localhost'' \<noteq> None \<and> checkAddr stub '':1234'' \<noteq> None
   \<and> checkAddr stub ''0.0.0.0:1234'' \<noteq> None \<and> checkAddr stub ''10.0.0.1:1234'' = None"
  using checkAddr_fails_iff [of stub "''localhost''"] checkAddr_fails_iff [of stub "'':1234''"]
    checkAddr_fails_iff [of stub "''0.0.0.0:1234''"] checkAddr_fails_iff [of stub "''10.0.0.1:1234''"]
  by (simp add: stub_simps SplitHostPort_examples)

subsection \<open>C2: a plain dial records the MSS\<close>

text \<open>
  Claim C2. When a plain dial succeeds, the raw dial has returned a connection, and a
  lookup under that connection's local and remote address returns the MSS the
  connection reports. And after any sequence of calls from the initial state in which
  no plain dial has recorded an entry for the pair \<open>(L, R)\<close>, the lookup for \<open>(L, R)\<close>
  returns zero. An entry belongs to a key, the two printed addresses put together, so
  "recorded for \<open>(L, R)\<close>" is: recorded under the key of \<open>(L, R)\<close>.
\<close>

theorem dial_records_mss:
  "(DialWithOptions env raddr b d p w = (Inr sess, w') \<longrightarrow>
      (\<exists>conn. fst (DialRAW env raddr w) = Inr conn
         \<and> GetMSSByAddr (LocalAddr conn) (RemoteAddr conn) w' = GetMSS conn))
   \<and> (never_dialled env L R as init \<longrightarrow> GetMSSByAddr L R (run env as init) = 0)"
proof (intro conjI impI)
  assume ok: "DialWithOptions env raddr b d p w = (Inr sess, w')"
  then have c: "checkAddr env raddr = None"
    by (cases "checkAddr env raddr") (simp_all add: DialWithOptions_def)
  from ok c obtain conn where conn: "fst (DialRAW env raddr w) = Inr conn"
    by (cases "fst (DialRAW env raddr w)") (auto simp: DialWithOptions_def split: prod.splits)
  from ok have "w' = snd (DialWithOptions env raddr b d p w)" by simp
  with c conn have "GetMSSByAddr (LocalAddr conn) (RemoteAddr conn) w' = GetMSS conn"
    by (simp add: DialWithOptions_recorded)
  with conn show "\<exists>conn. fst (DialRAW env raddr w) = Inr conn
         \<and> GetMSSByAddr (LocalAddr conn) (RemoteAddr conn) w' = GetMSS conn" by blast
next
  assume "never_dialled env L R as init"
  then have "mssCache (run env as init) (String L @ String R) = None"
    by (rule never_dialled_absent) (simp add: init_def)
  then show "GetMSSByAddr L R (run env as init) = 0" by (simp add: GetMSSByAddr_def)
qed

theorem dial_records_mss_witness:
  "fst (DialWithOptions stub ''10.0.0.1:1234'' 0 10 3 init) = Inr (UDPSession 1)
   \<and> GetMSSByAddr \<lparr>Network = ''tcp'', String = ''192.168.0.2:40000''\<rparr>
        \<lparr>Network = ''tcp'', String = ''10.0.0.1:1234''\<rparr>
        (snd (DialWithOptions stub ''10.0.0.1:1234'' 0 10 3 init)) = 1400
   \<and> never_dialled stub \<lparr>Network = ''tcp'', String = ''192.168.0.2:40000''\<rparr>
        \<lparr>Network = ''tcp'', String = ''10.0.0.2:1234''\<rparr>
        [Api_SetNoHTTP True, Api_DialWithOptions ''10.0.0.1:1234'' 0 10 3,
         Api_DialMulWithOptions ''10.0.0.2:1234'' 0 10 3 ''secret'' 2] init
   \<and> GetMSSByAddr \<lparr>Network = ''tcp'', String = ''192.168.0.2:40000''\<rparr>
        \<lparr>Network = ''tcp'', String = ''10.0.0.2:1234''\<rparr>
        (run stub [Api_SetNoHTTP True, Api_DialWithOptions ''10.0.0.1:1234'' 0 10 3,
                   Api_DialMulWithOptions ''10.0.0.2:1234'' 0 10 3 ''secret'' 2] init) = 0"
proof -
  let ?d = "DialWithOptions stub ''10.0.0.1:1234'' 0 10 3 init"
  let ?L = "\<lparr>Network = ''tcp'', String = ''192.168.0.2:40000''\<rparr>"
  let ?R = "\<lparr>Network = ''tcp'', String = ''10.0.0.2:1234''\<rparr>"
  let ?tr = "[Api_SetNoHTTP True, Api_DialWithOptions ''10.0.0.1:1234'' 0 10 3,
              Api_DialMulWithOptions ''10.0.0.2:1234'' 0 10 3 ''secret'' 2]"
  have ok: "?d = (Inr (UDPSession 1), snd ?d)"
    by (simp add: DialWithOptions_def checkAddr_examples DialRAW_def NewConn_def stub_simps init_def
        called_def putMSSByAddr_def)
  have raw: "fst (DialRAW stub ''10.0.0.1:1234'' init)
      = Inr \<lparr>LocalAddr = \<lparr>Network = ''tcp'', String = ''192.168.0.2:40000''\<rparr>,
             RemoteAddr = \<lparr>Network = ''tcp'', String = ''10.0.0.1:1234''\<rparr>, GetMSS = 1400\<rparr>"
    by (simp add: DialRAW_def stub_simps)
  have nd: "never_dialled stub ?L ?R ?tr init"
    by (simp add: checkAddr_examples DialRAW_def stub_simps)
  note inst = dial_records_mss [of stub "''10.0.0.1:1234''" 0 10 3 init "UDPSession 1" "snd ?d" ?L ?R ?tr]
  from inst ok have "\<exists>conn. fst (DialRAW stub ''10.0.0.1:1234'' init) = Inr conn
      \<and> GetMSSByAddr (LocalAddr conn) (RemoteAddr conn) (snd ?d) = GetMSS conn"
    by blast
  with raw have a: "GetMSSByAddr ?L \<lparr>Network = ''tcp'', String = ''10.0.0.1:1234''\<rparr> (snd ?d) = 1400"
    by auto
  from inst nd have b: "GetMSSByAddr ?L ?R (run stub ?tr init) = 0"
    by blast
  from ok have c: "fst ?d = Inr (UDPSession 1)"
    by (metis fst_conv)
  from c a nd b show ?thesis by blast
qed

subsection \<open>C3: a failed plain dial\<close>

text \<open>
  Claim C3. A plain dial to an address that fails the check returns the check's error,
  wrapped as \<^verbatim>\<open>checkAddr\<close>, and the state as it was: no library was called (the log is
  part of the state) and no MSS was recorded. A plain dial whose raw dial fails returns
  that error, wrapped as \<^verbatim>\<open>net.DialRAW\<close>, and leaves the MSS cache as it was. (A dial
  that fails only when the session is made has recorded the MSS by then; the claim
  does not cover that stage.)
\<close>

theorem failed_dial_records_nothing:
  "(checkAddr env raddr = Some err \<longrightarrow>
      DialWithOptions env raddr b d p w = (Inl (Wrap err ''checkAddr''), w))
   \<and> (checkAddr env raddr = None \<longrightarrow> fst (DialRAW env raddr w) = Inl err \<longrightarrow>
        fst (DialWithOptions env raddr b d p w) = Inl (Wrap err ''net.DialRAW'')
        \<and> mssCache (snd (DialWithOptions env raddr b d p w)) = mssCache w)"
  by (auto simp: DialWithOptions_def DialRAW_def split: prod.splits)

theorem failed_dial_records_nothing_witness:
  "checkAddr stub ''0.0.0.0:1234'' = Some (Errorf ''You can't set host to 0.0.0.0'')
   \<and> DialWithOptions stub ''0.0.0.0:1234'' 0 10 3 init
      = (Inl (Wrap (Errorf ''You can't set host to 0.0.0.0'') ''checkAddr''), init)
   \<and> calls (snd (DialWithOptions stub ''0.0.0.0:1234'' 0 10 3 init)) = []
   \<and> checkAddr refusing ''10.0.0.1:1234'' = None
   \<and> fst (DialRAW refusing ''10.0.0.1:1234'' init) = Inl (Other ''connection refused'')
   \<and> fst (DialWithOptions refusing ''10.0.0.1:1234'' 0 10 3 init)
      = Inl (Wrap (Other ''connection refused'') ''net.DialRAW'')
   \<and> mssCache (snd (DialWithOptions refusing ''10.0.0.1:1234'' 0 10 3 init)) = mssCache init"
proof -
  have r: "fst (DialRAW refusing ''10.0.0.1:1234'' init) = Inl (Other ''connection refused'')"
    by (simp add: DialRAW_def refusing_simps)
  from failed_dial_records_nothing [of stub "''0.0.0.0:1234''" "Errorf ''You can't set host to 0.0.0.0''" 0 10 3 init]
    failed_dial_records_nothing [of refusing "''10.0.0.1:1234''" "Other ''connection refused''" 0 10 3 init]
    r
  show ?thesis by (simp add: checkAddr_examples checkAddr_other init_def)
qed

subsection \<open>C4: where a failure comes from\<close>

text \<open>
  Claim C4, as amended. An entry point fails exactly when one of its stages fails, on
  the first failure, and it returns that stage's error: the error of the address check
  wrapped as \<^verbatim>\<open>checkAddr\<close>, the error of the raw dial or listen and of the UDP listen
  wrapped as \<^verbatim>\<open>net.DialRAW\<close> or \<^verbatim>\<open>net.ListenRAW\<close>, the error of the multiplexer
  wrapped as \<^verbatim>\<open>DialMulWithOptions\<close> or \<^verbatim>\<open>ListenMulWithOptions\<close>; the error of the
  UDP address resolution and the error of the session engine as the library returned
  it, with nothing attached. A dialer handed to the multiplexer fails exactly when its
  dial fails, with the dial's error. A library's answer may depend on the calls made
  before it, so the equivalences also say that nothing is retried and nothing
  swallowed: the failure of a stage is the failure of the call, whatever a second
  attempt would have returned.
\<close>

theorem failures_propagate:
  "(fst (DialWithOptions env raddr b d p w) = Inl E) =
     ((\<exists>err. checkAddr env raddr = Some err \<and> E = Wrap err ''checkAddr'')
      \<or> (checkAddr env raddr = None
          \<and> (\<exists>err. fst (DialRAW env raddr w) = Inl err \<and> E = Wrap err ''net.DialRAW''))
      \<or> (checkAddr env raddr = None
          \<and> (\<exists>conn w1. DialRAW env raddr w = (Inr conn, w1)
                \<and> fst (NewConn env raddr b d p (RawConn conn)
                         (putMSSByAddr (LocalAddr conn) (RemoteAddr conn) (GetMSS conn) w1)) = Inl E)))
   \<and> (fst (DialMulWithOptions_udp env raddr b d p w) = Inl E) =
     (fst (ResolveUDPAddr env ''udp4'' raddr w) = Inl E
      \<or> (\<exists>udpaddr w1. ResolveUDPAddr env ''udp4'' raddr w = (Inr udpaddr, w1)
            \<and> ((\<exists>err. fst (mulconDial env (dialer_udp env udpaddr) 10 mulconMethod ''123'' w1) = Inl err
                   \<and> E = Wrap err ''DialMulWithOptions'')
               \<or> (\<exists>conn w2. mulconDial env (dialer_udp env udpaddr) 10 mulconMethod ''123'' w1 = (Inr conn, w2)
                     \<and> fst (NewConn env raddr b d p conn w2) = Inl E))))
   \<and> (fst (DialMulWithOptions env raddr b d p pw n w) = Inl E) =
     ((\<exists>err. checkAddr env raddr = Some err \<and> E = Wrap err ''checkAddr'')
      \<or> (checkAddr env raddr = None
          \<and> ((\<exists>err. fst (mulconDial env (dialer_raw env raddr) n mulconMethod pw w) = Inl err
                 \<and> E = Wrap err ''DialMulWithOptions'')
             \<or> (\<exists>conn w1. mulconDial env (dialer_raw env raddr) n mulconMethod pw w = (Inr conn, w1)
                   \<and> fst (NewConn env raddr b d p conn w1) = Inl E))))
   \<and> (fst (ListenWithOptions env laddr b d p w) = Inl E) =
     ((\<exists>err. checkAddr env laddr = Some err \<and> E = Wrap err ''checkAddr'')
      \<or> (checkAddr env laddr = None
          \<and> (\<exists>err. fst (ListenRAW env laddr w) = Inl err \<and> E = Wrap err ''net.ListenRAW''))
      \<or> (checkAddr env laddr = None
          \<and> (\<exists>conn w1. ListenRAW env laddr w = (Inr conn, w1)
                \<and> fst (ServeConn env b d p (RawListener conn)
                         (putListenerByAddr (LocalAddr_lis conn) (Some conn) w1)) = Inl E)))
   \<and> (fst (ListenMulWithOptions_udp env laddr b d p w) = Inl E) =
     (fst (ResolveUDPAddr env ''udp4'' laddr w) = Inl E
      \<or> (\<exists>udpaddr w1. ResolveUDPAddr env ''udp4'' laddr w = (Inr udpaddr, w1)
            \<and> ((\<exists>err. fst (ListenUDP env ''udp4'' udpaddr w1) = Inl err \<and> E = Wrap err ''net.ListenRAW'')
               \<or> (\<exists>conn w2. ListenUDP env ''udp4'' udpaddr w1 = (Inr conn, w2)
                     \<and> ((\<exists>err. fst (mulconListen env (UdpConn conn) mulconMethod ''123'' w2) = Inl err
                            \<and> E = Wrap err ''ListenMulWithOptions'')
                        \<or> (\<exists>listener w3. mulconListen env (UdpConn conn) mulconMethod ''123'' w2 = (Inr listener, w3)
                              \<and> fst (ServeConn env b d p listener w3) = Inl E))))))
   \<and> (fst (ListenMulWithOptions env laddr b d p pw w) = Inl E) =
     ((\<exists>err. fst (ListenRAW env laddr w) = Inl err \<and> E = Wrap err ''net.ListenRAW'')
      \<or> (\<exists>conn w1. ListenRAW env laddr w = (Inr conn, w1)
            \<and> ((\<exists>err. fst (mulconListen env (RawListener conn) mulconMethod pw w1) = Inl err
                   \<and> E = Wrap err ''ListenMulWithOptions'')
               \<or> (\<exists>listener w2. mulconListen env (RawListener conn) mulconMethod pw w1 = (Inr listener, w2)
                     \<and> fst (ServeConn env b d p listener w2) = Inl E))))
   \<and> (fst (dialer_raw env raddr w) = Inl E) = (fst (DialRAW env raddr w) = Inl E)
   \<and> (fst (dialer_udp env udpaddr w) = Inl E) = (fst (DialUDP env ''udp4'' None udpaddr w) = Inl E)"
proof (intro conjI)
  show "(fst (dialer_raw env raddr w) = Inl E) = (fst (DialRAW env raddr w) = Inl E)"
    by (cases "DialRAW env raddr w"; cases "fst (DialRAW env raddr w)")
      (simp_all add: dialer_raw_def)
  show "(fst (dialer_udp env udpaddr w) = Inl E) = (fst (DialUDP env ''udp4'' None udpaddr w) = Inl E)"
    by (cases "DialUDP env ''udp4'' None udpaddr w"; cases "fst (DialUDP env ''udp4'' None udpaddr w)")
      (simp_all add: dialer_udp_def)
  show "(fst (DialWithOptions env raddr b d p w) = Inl E) =
     ((\<exists>err. checkAddr env raddr = Some err \<and> E = Wrap err ''checkAddr'')
      \<or> (checkAddr env raddr = None
          \<and> (\<exists>err. fst (DialRAW env raddr w) = Inl err \<and> E = Wrap err ''net.DialRAW''))
      \<or> (checkAddr env raddr = None
          \<and> (\<exists>conn w1. DialRAW env raddr w = (Inr conn, w1)
                \<and> fst (NewConn env raddr b d p (RawConn conn)
                         (putMSSByAddr (LocalAddr conn) (RemoteAddr conn) (GetMSS conn) w1)) = Inl E)))"
    by (cases "DialRAW env raddr w"; cases "fst (DialRAW env raddr w)"; cases "checkAddr env raddr")
      (auto simp: DialWithOptions_def)
  show "(fst (DialMulWithOptions_udp env raddr b d p w) = Inl E) =
     (fst (ResolveUDPAddr env ''udp4'' raddr w) = Inl E
      \<or> (\<exists>udpaddr w1. ResolveUDPAddr env ''udp4'' raddr w = (Inr udpaddr, w1)
            \<and> ((\<exists>err. fst (mulconDial env (dialer_udp env udpaddr) 10 mulconMethod ''123'' w1) = Inl err
                   \<and> E = Wrap err ''DialMulWithOptions'')
               \<or> (\<exists>conn w2. mulconDial env (dialer_udp env udpaddr) 10 mulconMethod ''123'' w1 = (Inr conn, w2)
                     \<and> fst (NewConn env raddr b d p conn w2) = Inl E))))"
    by (auto simp: DialMulWithOptions_udp_def split: prod.splits sum.splits)
  show "(fst (DialMulWithOptions env raddr b d p pw n w) = Inl E) =
     ((\<exists>err. checkAddr env raddr = Some err \<and> E = Wrap err ''checkAddr'')
      \<or> (checkAddr env raddr = None
          \<and> ((\<exists>err. fst (mulconDial env (dialer_raw env raddr) n mulconMethod pw w) = Inl err
                 \<and> E = Wrap err ''DialMulWithOptions'')
             \<or> (\<exists>conn w1. mulconDial env (dialer_raw env raddr) n mulconMethod pw w = (Inr conn, w1)
                   \<and> fst (NewConn env raddr b d p conn w1) = Inl E))))"
    by (auto simp: DialMulWithOptions_def split: prod.splits sum.splits option.splits)
  show "(fst (ListenWithOptions env laddr b d p w) = Inl E) =
     ((\<exists>err. checkAddr env laddr = Some err \<and> E = Wrap err ''checkAddr'')
      \<or> (checkAddr env laddr = None
          \<and> (\<exists>err. fst (ListenRAW env laddr w) = Inl err \<and> E = Wrap err ''net.ListenRAW''))
      \<or> (checkAddr env laddr = None
          \<and> (\<exists>conn w1. ListenRAW env laddr w = (Inr conn, w1)
                \<and> fst (ServeConn env b d p (RawListener conn)
                         (putListenerByAddr (LocalAddr_lis conn) (Some conn) w1)) = Inl E)))"
    by (auto simp: ListenWithOptions_def split: prod.splits sum.splits option.splits)
  show "(fst (ListenMulWithOptions_udp env laddr b d p w) = Inl E) =
     (fst (ResolveUDPAddr env ''udp4'' laddr w) = Inl E
      \<or> (\<exists>udpaddr w1. ResolveUDPAddr env ''udp4'' laddr w = (Inr udpaddr, w1)
            \<and> ((\<exists>err. fst (ListenUDP env ''udp4'' udpaddr w1) = Inl err \<and> E = Wrap err ''net.ListenRAW'')
               \<or> (\<exists>conn w2. ListenUDP env ''udp4'' udpaddr w1 = (Inr conn, w2)
                     \<and> ((\<exists>err. fst (mulconListen env (UdpConn conn) mulconMethod ''123'' w2) = Inl err
                            \<and> E = Wrap err ''ListenMulWithOptions'')
                        \<or> (\<exists>listener w3. mulconListen env (UdpConn conn) mulconMethod ''123'' w2 = (Inr listener, w3)
                              \<and> fst (ServeConn env b d p listener w3) = Inl E))))))"
    by (auto simp: ListenMulWithOptions_udp_def split: prod.splits sum.splits)
  show "(fst (ListenMulWithOptions env laddr b d p pw w) = Inl E) =
     ((\<exists>err. fst (ListenRAW env laddr w) = Inl err \<and> E = Wrap err ''net.ListenRAW'')
      \<or> (\<exists>conn w1. ListenRAW env laddr w = (Inr conn, w1)
            \<and> ((\<exists>err. fst (mulconListen env (RawListener conn) mulconMethod pw w1) = Inl err
                   \<and> E = Wrap err ''ListenMulWithOptions'')
               \<or> (\<exists>listener w2. mulconListen env (RawListener conn) mulconMethod pw w1 = (Inr listener, w2)
                     \<and> fst (ServeConn env b d p listener w2) = Inl E))))"
    by (auto simp: ListenMulWithOptions_def split: prod.splits sum.splits)
qed

text \<open>
  Claim C4, the amended statement at work: a plain dial rejected by the check, one
  refused by the raw transport, a multiplexed dial whose multiplexer fails, and a
  multiplexed listen whose session engine fails.
\<close>

theorem failures_propagate_witness:
  "fst (DialWithOptions stub ''0.0.0.0:1234'' 0 10 3 init)
     = Inl (Wrap (Errorf ''You can't set host to 0.0.0.0'') ''checkAddr'')
   \<and> fst (DialWithOptions refusing ''10.0.0.1:1234'' 0 10 3 init)
     = Inl (Wrap (Other ''connection refused'') ''net.DialRAW'')
   \<and> fst (DialMulWithOptions unmultiplexed ''10.0.0.1:1234'' 0 10 3 ''secret'' 2 init)
     = Inl (Wrap (Other ''no connection'') ''DialMulWithOptions'')
   \<and> fst (ListenMulWithOptions rejecting ''127.0.0.1:5000'' 0 10 3 ''secret'' init)
     = Inl (Other ''session rejected'')"
proof -
  have a: "checkAddr stub ''0.0.0.0:1234'' = Some (Errorf ''You can't set host to 0.0.0.0'')"
    by (simp add: checkAddr_examples)
  have b: "checkAddr refusing ''10.0.0.1:1234'' = None"
    by (simp add: checkAddr_other checkAddr_examples)
  have c: "fst (DialRAW refusing ''10.0.0.1:1234'' init) = Inl (Other ''connection refused'')"
    by (simp add: DialRAW_def refusing_simps)
  have d: "checkAddr unmultiplexed ''10.0.0.1:1234'' = None"
    by (simp add: checkAddr_other checkAddr_examples)
  have e: "fst (mulconDial unmultiplexed (dialer_raw unmultiplexed ''10.0.0.1:1234'') 2 mulconMethod
             ''secret'' init) = Inl (Other ''no connection'')"
    by (simp add: mulconDial_def unmultiplexed_simps split: prod.splits)
  let ?l = "\<lparr>handle = 0, LocalAddr_lis = \<lparr>Network = ''tcp'', String = ''127.0.0.1:5000''\<rparr>\<rparr>"
  let ?w1 = "called (Call_ListenRAW ''127.0.0.1:5000'') init"
  let ?w2 = "called (Call_mulconListen (RawListener ?l) mulconMethod ''secret'') ?w1"
  have f: "ListenRAW rejecting ''127.0.0.1:5000'' init = (Inr ?l, ?w1)"
    by (simp add: ListenRAW_def rejecting_simps stub_simps init_def)
  have g: "mulconListen rejecting (RawListener ?l) mulconMethod ''secret'' ?w1 = (Inr (MulConn 1), ?w2)"
    by (simp add: mulconListen_def rejecting_simps stub_simps init_def)
  have h: "fst (ServeConn rejecting 0 10 3 (MulConn 1) ?w2) = Inl (Other ''session rejected'')"
    by (simp add: ServeConn_def rejecting_simps)
  from a failures_propagate [where env = stub and raddr = "''0.0.0.0:1234''"
      and b = 0 and d = 10 and p = 3 and w = init
      and E = "Wrap (Errorf ''You can't set host to 0.0.0.0'') ''checkAddr''", THEN conjunct1]
  have 1: "fst (DialWithOptions stub ''0.0.0.0:1234'' 0 10 3 init)
     = Inl (Wrap (Errorf ''You can't set host to 0.0.0.0'') ''checkAddr'')"
    by blast
  from b c failures_propagate [where env = refusing and raddr = "''10.0.0.1:1234''"
      and b = 0 and d = 10 and p = 3 and w = init
      and E = "Wrap (Other ''connection refused'') ''net.DialRAW''", THEN conjunct1]
  have 2: "fst (DialWithOptions refusing ''10.0.0.1:1234'' 0 10 3 init)
     = Inl (Wrap (Other ''connection refused'') ''net.DialRAW'')"
    by blast
  from d e failures_propagate [where env = unmultiplexed and raddr = "''10.0.0.1:1234''"
      and b = 0 and d = 10 and p = 3 and w = init and pw = "''secret''" and n = 2
      and E = "Wrap (Other ''no connection'') ''DialMulWithOptions''",
      THEN conjunct2, THEN conjunct2, THEN conjunct1]
  have 3: "fst (DialMulWithOptions unmultiplexed ''10.0.0.1:1234'' 0 10 3 ''secret'' 2 init)
     = Inl (Wrap (Other ''no connection'') ''DialMulWithOptions'')"
    by blast
  from f g h failures_propagate [where env = rejecting and laddr = "''127.0.0.1:5000''"
      and b = 0 and d = 10 and p = 3 and w = init and pw = "''secret''"
      and E = "Other ''session rejected''",
      THEN conjunct2, THEN conjunct2, THEN conjunct2, THEN conjunct2, THEN conjunct2,
      THEN conjunct1]
  have 4: "fst (ListenMulWithOptions rejecting ''127.0.0.1:5000'' 0 10 3 ''secret'' init)
     = Inl (Other ''session rejected'')"
    by blast
  from 1 2 3 4 show ?thesis by blast
qed

text \<open>
  Claim C4 as stated fails. A multiplexed dial over UDP to \<^verbatim>\<open>localhost\<close>, an address
  without a port, returns the error of the address resolution as it is; a plain dial
  whose session engine rejects the connection returns the engine's error as it is.
  Neither error is wrapped with a label of the package.
\<close>

theorem failure_unannotated:
  "fst (DialMulWithOptions_udp stub ''localhost'' 0 10 3 init)
     = Inl (AddrError ''missing port in address'' ''localhost'')
   \<and> \<not> annotated (AddrError ''missing port in address'' ''localhost'')
   \<and> fst (DialWithOptions rejecting ''10.0.0.1:1234'' 0 10 3 init) = Inl (Other ''session rejected'')
   \<and> \<not> annotated (Other ''session rejected'')"
  by (simp add: DialMulWithOptions_udp_def ResolveUDPAddr_def stub_simps SplitHostPort_examples
      DialWithOptions_def checkAddr_other checkAddr_examples DialRAW_def NewConn_def rejecting_simps)

subsection \<open>C5: a plain listen records the listener\<close>

text \<open>
  Claim C5. When a plain listen succeeds, the raw listen has returned a listener, and a
  lookup under that listener's bound address returns this very listener. And after any
  sequence of calls from the initial state in which no plain listen has recorded a
  listener under the printed form of \<open>A\<close>, the lookup for \<open>A\<close> returns \<^verbatim>\<open>nil\<close>.
\<close>

theorem listen_records_listener:
  "(ListenWithOptions env laddr b d p w = (Inr l, w') \<longrightarrow>
      (\<exists>conn. fst (ListenRAW env laddr w) = Inr conn
         \<and> GetListenerByAddr (LocalAddr_lis conn) w' = Some conn))
   \<and> (never_listened env A as init \<longrightarrow> GetListenerByAddr A (run env as init) = None)"
proof (intro conjI impI)
  assume ok: "ListenWithOptions env laddr b d p w = (Inr l, w')"
  then have c: "checkAddr env laddr = None"
    by (cases "checkAddr env laddr") (simp_all add: ListenWithOptions_def)
  from ok c obtain conn where conn: "fst (ListenRAW env laddr w) = Inr conn"
    by (cases "fst (ListenRAW env laddr w)") (auto simp: ListenWithOptions_def split: prod.splits)
  from ok have "w' = snd (ListenWithOptions env laddr b d p w)" by simp
  with c conn have "GetListenerByAddr (LocalAddr_lis conn) w' = Some conn"
    by (simp add: ListenWithOptions_recorded)
  with conn show "\<exists>conn. fst (ListenRAW env laddr w) = Inr conn
         \<and> GetListenerByAddr (LocalAddr_lis conn) w' = Some conn" by blast
next
  assume "never_listened env A as init"
  then have "lisCache (run env as init) (String A) = None"
    by (rule never_listened_absent) (simp add: init_def)
  then show "GetListenerByAddr A (run env as init) = None" by (simp add: GetListenerByAddr_def)
qed

theorem listen_records_listener_witness:
  "fst (ListenWithOptions stub ''127.0.0.1:5000'' 0 10 3 init) = Inr (Listener 1)
   \<and> GetListenerByAddr \<lparr>Network = ''tcp'', String = ''127.0.0.1:5000''\<rparr>
        (snd (ListenWithOptions stub ''127.0.0.1:5000'' 0 10 3 init))
      = Some \<lparr>handle = 0, LocalAddr_lis = \<lparr>Network = ''tcp'', String = ''127.0.0.1:5000''\<rparr>\<rparr>
   \<and> never_listened stub \<lparr>Network = ''tcp'', String = ''10.0.0.2:1234''\<rparr>
        [Api_ListenWithOptions ''127.0.0.1:5000'' 0 10 3, Api_SetDSCP 46,
         Api_ListenMulWithOptions ''10.0.0.2:1234'' 0 10 3 ''secret''] init
   \<and> GetListenerByAddr \<lparr>Network = ''tcp'', String = ''10.0.0.2:1234''\<rparr>
        (run stub [Api_ListenWithOptions ''127.0.0.1:5000'' 0 10 3, Api_SetDSCP 46,
                   Api_ListenMulWithOptions ''10.0.0.2:1234'' 0 10 3 ''secret''] init) = None"
proof -
  let ?l = "ListenWithOptions stub ''127.0.0.1:5000'' 0 10 3 init"
  let ?A = "\<lparr>Network = ''tcp'', String = ''10.0.0.2:1234''\<rparr>"
  let ?tr = "[Api_ListenWithOptions ''127.0.0.1:5000'' 0 10 3, Api_SetDSCP 46,
              Api_ListenMulWithOptions ''10.0.0.2:1234'' 0 10 3 ''secret'']"
  have ok: "?l = (Inr (Listener 1), snd ?l)"
    by (simp add: ListenWithOptions_def checkAddr_examples ListenRAW_def ServeConn_def stub_simps
        init_def called_def putListenerByAddr_def)
  have raw: "fst (ListenRAW stub ''127.0.0.1:5000'' init)
      = Inr \<lparr>handle = 0, LocalAddr_lis = \<lparr>Network = ''tcp'', String = ''127.0.0.1:5000''\<rparr>\<rparr>"
    by (simp add: ListenRAW_def stub_simps init_def)
  have nl: "never_listened stub ?A ?tr init"
    by (simp add: checkAddr_examples ListenRAW_def stub_simps)
  note inst = listen_records_listener [of stub "''127.0.0.1:5000''" 0 10 3 init "Listener 1" "snd ?l" ?A ?tr]
  from inst ok have "\<exists>conn. fst (ListenRAW stub ''127.0.0.1:5000'' init) = Inr conn
      \<and> GetListenerByAddr (LocalAddr_lis conn) (snd ?l) = Some conn"
    by blast
  with raw have a: "GetListenerByAddr \<lparr>Network = ''tcp'', String = ''127.0.0.1:5000''\<rparr> (snd ?l)
      = Some \<lparr>handle = 0, LocalAddr_lis = \<lparr>Network = ''tcp'', String = ''127.0.0.1:5000''\<rparr>\<rparr>"
    by auto
  from inst nl have b: "GetListenerByAddr ?A (run stub ?tr init) = None"
    by blast
  from ok have c: "fst ?l = Inr (Listener 1)"
    by (metis fst_conv)
  from c a nl b show ?thesis by blast
qed

subsection \<open>C6: the multiplexed entry points write no cache\<close>

text \<open>
  Claim C6. Neither multiplexed dial writes the MSS cache and neither multiplexed
  listen writes the listener cache, whether the call succeeds or fails. Of all the
  calls a client can make, only a plain dial can change the MSS cache and only a plain
  listen can change the listener cache.
\<close>

theorem multiplexed_paths_leave_caches:
  "mssCache (snd (DialMulWithOptions env raddr b d p pw n w)) = mssCache w
   \<and> mssCache (snd (DialMulWithOptions_udp env raddr b d p w)) = mssCache w
   \<and> lisCache (snd (ListenMulWithOptions env laddr b d p pw w)) = lisCache w
   \<and> lisCache (snd (ListenMulWithOptions_udp env laddr b d p w)) = lisCache w
   \<and> (mssCache (exec env a w) \<noteq> mssCache w \<longrightarrow> (\<exists>addr b d p. a = Api_DialWithOptions addr b d p))
   \<and> (lisCache (exec env a w) \<noteq> lisCache w \<longrightarrow> (\<exists>addr b d p. a = Api_ListenWithOptions addr b d p))"
proof -
  have "mssCache (exec env a w) = mssCache w" if "\<nexists>addr b d p. a = Api_DialWithOptions addr b d p"
    using that exec_mssCache [of env a w] by (cases a) auto
  moreover
  have "lisCache (exec env a w) = lisCache w" if "\<nexists>addr b d p. a = Api_ListenWithOptions addr b d p"
    using that exec_lisCache [of env a w] by (cases a) auto
  ultimately show ?thesis
    by (auto simp: DialMulWithOptions_frame DialMulWithOptions_udp_frame
        ListenMulWithOptions_frame ListenMulWithOptions_udp_frame)
qed

theorem multiplexed_paths_leave_caches_witness:
  "mssCache (exec stub (Api_DialWithOptions ''10.0.0.1:1234'' 0 10 3) init) \<noteq> mssCache init
   \<and> lisCache (exec stub (Api_ListenWithOptions ''127.0.0.1:5000'' 0 10 3) init) \<noteq> lisCache init
   \<and> mssCache (snd (DialMulWithOptions stub ''10.0.0.1:1234'' 0 10 3 ''secret'' 2 init)) = mssCache init
   \<and> mssCache (snd (DialMulWithOptions_udp stub ''10.0.0.1:1234'' 0 10 3 init)) = mssCache init
   \<and> lisCache (snd (ListenMulWithOptions stub ''127.0.0.1:5000'' 0 10 3 ''secret'' init)) = lisCache init
   \<and> lisCache (snd (ListenMulWithOptions_udp stub ''127.0.0.1:5000'' 0 10 3 init)) = lisCache init"
proof -
  have "mssCache (exec stub (Api_DialWithOptions ''10.0.0.1:1234'' 0 10 3) init)
          (''192.168.0.2:40000'' @ ''10.0.0.1:1234'') = Some 1400"
    by (simp add: exec_mssCache checkAddr_examples DialRAW_def stub_simps del: exec.simps)
  moreover have "mssCache init (''192.168.0.2:40000'' @ ''10.0.0.1:1234'') = None"
    by (simp add: init_def)
  ultimately have a: "mssCache (exec stub (Api_DialWithOptions ''10.0.0.1:1234'' 0 10 3) init) \<noteq> mssCache init"
    by (metis option.distinct(1))
  have "lisCache (exec stub (Api_ListenWithOptions ''127.0.0.1:5000'' 0 10 3) init) ''127.0.0.1:5000'' \<noteq> None"
    by (simp add: exec_lisCache checkAddr_examples ListenRAW_def stub_simps del: exec.simps)
  moreover have "lisCache init ''127.0.0.1:5000'' = None"
    by (simp add: init_def)
  ultimately have b: "lisCache (exec stub (Api_ListenWithOptions ''127.0.0.1:5000'' 0 10 3) init) \<noteq> lisCache init"
    by metis
  from a b
    multiplexed_paths_leave_caches [of stub "''10.0.0.1:1234''" 0 10 3 "''secret''" 2 init
      "''127.0.0.1:5000''" "Api_DialWithOptions ''10.0.0.1:1234'' 0 10 3"]
  show ?thesis by blast
qed

subsection \<open>C7: the multiplexed entry points over UDP\<close>

text \<open>
  Claim C7. The multiplexed dial over UDP does not check the address: what it does is
  the same whatever function splits addresses, which only the check reads. For every
  address its first library call is \<^verbatim>\<open>net.ResolveUDPAddr\<close> on \<^verbatim>\<open>udp4\<close>; when that
  succeeds, the next is \<^verbatim>\<open>mulcon.Dial\<close> with 10 connections, the method
  \<^verbatim>\<open>chacha20-ietf\<close> and the secret \<^verbatim>\<open>123\<close>, whose dialer dials UDP to the resolved
  address; a session call may follow. The multiplexed listen over UDP does not check
  the address either, resolves it the same way and, once the UDP socket is open, calls
  \<^verbatim>\<open>mulcon.Listen\<close> with the same method and secret.
\<close>

theorem udp_variants_fixed_parameters:
  "DialMulWithOptions_udp (env\<lparr>net_SplitHostPort := split\<rparr>) raddr b d p w
     = DialMulWithOptions_udp env raddr b d p w
   \<and> (\<exists>cs. calls (snd (DialMulWithOptions_udp env raddr b d p w))
            = calls w @ Call_ResolveUDPAddr ''udp4'' raddr # cs)
   \<and> (fst (ResolveUDPAddr env ''udp4'' raddr w) = Inr udpaddr \<longrightarrow>
        (\<exists>k cs. calls (snd (DialMulWithOptions_udp env raddr b d p w))
            = calls w @ Call_ResolveUDPAddr ''udp4'' raddr
                # Call_mulconDial 10 ''chacha20-ietf'' ''123''
                # replicate k (Call_DialUDP ''udp4'' None udpaddr) @ cs
          \<and> (cs = [] \<or> (\<exists>conn. cs = [Call_NewConn raddr b d p conn]))))
   \<and> ListenMulWithOptions_udp (env\<lparr>net_SplitHostPort := split\<rparr>) laddr b d p w
     = ListenMulWithOptions_udp env laddr b d p w
   \<and> (\<exists>cs. calls (snd (ListenMulWithOptions_udp env laddr b d p w))
            = calls w @ Call_ResolveUDPAddr ''udp4'' laddr # cs)
   \<and> (ResolveUDPAddr env ''udp4'' laddr w = (Inr udpaddr, w1) \<longrightarrow>
      fst (ListenUDP env ''udp4'' udpaddr w1) = Inr conn \<longrightarrow>
        (\<exists>cs. calls (snd (ListenMulWithOptions_udp env laddr b d p w))
            = calls w @ Call_ResolveUDPAddr ''udp4'' laddr # Call_ListenUDP ''udp4'' udpaddr
                # Call_mulconListen (UdpConn conn) ''chacha20-ietf'' ''123'' # cs
          \<and> (cs = [] \<or> (\<exists>l. cs = [Call_ServeConn b d p l]))))"
proof (intro conjI impI)
  show "DialMulWithOptions_udp (env\<lparr>net_SplitHostPort := split\<rparr>) raddr b d p w
     = DialMulWithOptions_udp env raddr b d p w"
    by (simp add: DialMulWithOptions_udp_def cong: prod.case_cong sum.case_cong)
  show "\<exists>cs. calls (snd (DialMulWithOptions_udp env raddr b d p w))
            = calls w @ Call_ResolveUDPAddr ''udp4'' raddr # cs"
    using DialMulWithOptions_udp_calls [of env raddr b d p w] by blast
  show "ListenMulWithOptions_udp (env\<lparr>net_SplitHostPort := split\<rparr>) laddr b d p w
     = ListenMulWithOptions_udp env laddr b d p w"
    by (simp add: ListenMulWithOptions_udp_def cong: prod.case_cong sum.case_cong)
  show "\<exists>cs. calls (snd (ListenMulWithOptions_udp env laddr b d p w))
            = calls w @ Call_ResolveUDPAddr ''udp4'' laddr # cs"
    by (simp add: ListenMulWithOptions_udp_def ResolveUDPAddr_def ListenUDP_def mulconListen_def ServeConn_def
        split: sum.splits)
next
  assume "fst (ResolveUDPAddr env ''udp4'' raddr w) = Inr udpaddr"
  then show "\<exists>k cs. calls (snd (DialMulWithOptions_udp env raddr b d p w))
            = calls w @ Call_ResolveUDPAddr ''udp4'' raddr
                # Call_mulconDial 10 ''chacha20-ietf'' ''123''
                # replicate k (Call_DialUDP ''udp4'' None udpaddr) @ cs
          \<and> (cs = [] \<or> (\<exists>conn. cs = [Call_NewConn raddr b d p conn]))"
    using DialMulWithOptions_udp_calls [of env raddr b d p w] by (auto simp: mulconMethod_def)
next
  assume "ResolveUDPAddr env ''udp4'' laddr w = (Inr udpaddr, w1)"
    and "fst (ListenUDP env ''udp4'' udpaddr w1) = Inr conn"
  then show "\<exists>cs. calls (snd (ListenMulWithOptions_udp env laddr b d p w))
            = calls w @ Call_ResolveUDPAddr ''udp4'' laddr # Call_ListenUDP ''udp4'' udpaddr
                # Call_mulconListen (UdpConn conn) ''chacha20-ietf'' ''123'' # cs
          \<and> (cs = [] \<or> (\<exists>l. cs = [Call_ServeConn b d p l]))"
    by (auto simp: ListenMulWithOptions_udp_def ResolveUDPAddr_def ListenUDP_def mulconListen_def
        ServeConn_def mulconMethod_def split: sum.splits)
qed

text \<open>
  Claim C7 at \<^verbatim>\<open>0.0.0.0:1234\<close>, an address the check rejects, with the stub: both
  entry points succeed.
\<close>

theorem udp_variants_fixed_parameters_witness:
  "checkAddr stub ''0.0.0.0:1234'' \<noteq> None
   \<and> fst (DialMulWithOptions_udp stub ''0.0.0.0:1234'' 0 10 3 init) = Inr (UDPSession 12)
   \<and> (\<exists>k cs. calls (snd (DialMulWithOptions_udp stub ''0.0.0.0:1234'' 0 10 3 init))
          = calls init @ Call_ResolveUDPAddr ''udp4'' ''0.0.0.0:1234''
              # Call_mulconDial 10 ''chacha20-ietf'' ''123''
              # replicate k (Call_DialUDP ''udp4'' None \<lparr>IP = [127, 0, 0, 1], Port = 4000, Zone = []\<rparr>) @ cs
        \<and> (cs = [] \<or> (\<exists>conn. cs = [Call_NewConn ''0.0.0.0:1234'' 0 10 3 conn])))
   \<and> fst (ListenMulWithOptions_udp stub ''0.0.0.0:1234'' 0 10 3 init) = Inr (Listener 3)
   \<and> (\<exists>cs. calls (snd (ListenMulWithOptions_udp stub ''0.0.0.0:1234'' 0 10 3 init))
          = calls init @ Call_ResolveUDPAddr ''udp4'' ''0.0.0.0:1234''
              # Call_ListenUDP ''udp4'' \<lparr>IP = [127, 0, 0, 1], Port = 4000, Zone = []\<rparr>
              # Call_mulconListen (UdpConn (UDPConn 1)) ''chacha20-ietf'' ''123'' # cs
        \<and> (cs = [] \<or> (\<exists>l. cs = [Call_ServeConn 0 10 3 l])))"
proof -
  let ?ua = "\<lparr>IP = [127, 0, 0, 1], Port = 4000, Zone = []\<rparr>"
  let ?w1 = "called (Call_ResolveUDPAddr ''udp4'' ''0.0.0.0:1234'') init"
  have r: "ResolveUDPAddr stub ''udp4'' ''0.0.0.0:1234'' init = (Inr ?ua, ?w1)"
    by (simp add: ResolveUDPAddr_def stub_simps SplitHostPort_examples)
  then have r': "fst (ResolveUDPAddr stub ''udp4'' ''0.0.0.0:1234'' init) = Inr ?ua"
    by simp
  have l: "fst (ListenUDP stub ''udp4'' ?ua ?w1) = Inr (UDPConn 1)"
    by (simp add: ListenUDP_def stub_simps init_def)
  have c: "checkAddr stub ''0.0.0.0:1234'' \<noteq> None"
    by (simp add: checkAddr_examples)
  have d: "fst (DialMulWithOptions_udp stub ''0.0.0.0:1234'' 0 10 3 init) = Inr (UDPSession 12)"
    by code_simp
  have e: "fst (ListenMulWithOptions_udp stub ''0.0.0.0:1234'' 0 10 3 init) = Inr (Listener 3)"
    by code_simp
  from c d e r r' l
    udp_variants_fixed_parameters [where env = stub and split = SplitHostPort
      and raddr = "''0.0.0.0:1234''" and laddr = "''0.0.0.0:1234''" and b = 0 and d = 10 and p = 3
      and w = init and udpaddr = ?ua and ?w1.0 = ?w1 and conn = "UDPConn 1"]
  show ?thesis by blast
qed

subsection \<open>C8: writing twice is writing once\<close>

text \<open>
  Claim C8. Writing the same MSS under the same pair of addresses twice leaves the
  state that writing it once leaves, and the lookup then returns that MSS; the same
  holds for writing a listener under an address.
\<close>

theorem cache_writes_idempotent:
  "putMSSByAddr L R mss (putMSSByAddr L R mss w) = putMSSByAddr L R mss w
   \<and> GetMSSByAddr L R (putMSSByAddr L R mss (putMSSByAddr L R mss w)) = mss
   \<and> putListenerByAddr A lis (putListenerByAddr A lis w) = putListenerByAddr A lis w
   \<and> GetListenerByAddr A (putListenerByAddr A lis (putListenerByAddr A lis w)) = lis"
  by (simp add: putMSSByAddr_def GetMSSByAddr_def putListenerByAddr_def GetListenerByAddr_def)

subsection \<open>C9: addresses count by their printed form\<close>

text \<open>
  Claim C9. If two local addresses print the same and two remote addresses print the
  same, an MSS written under the one pair is found under the other.
\<close>

theorem key_is_printed_form:
  assumes "String L1 = String L2" and "String R1 = String R2"
  shows "GetMSSByAddr L2 R2 (putMSSByAddr L1 R1 m w) = m"
  using assms by (simp add: putMSSByAddr_def GetMSSByAddr_def)

theorem key_is_printed_form_witness:
  "\<lparr>Network = ''tcp'', String = ''10.0.0.2:40000''\<rparr> \<noteq> \<lparr>Network = ''udp'', String = ''10.0.0.2:40000''\<rparr>
   \<and> GetMSSByAddr \<lparr>Network = ''udp'', String = ''10.0.0.2:40000''\<rparr> \<lparr>Network = ''udp'', String = ''10.0.0.1:1234''\<rparr>
       (putMSSByAddr \<lparr>Network = ''tcp'', String = ''10.0.0.2:40000''\<rparr> \<lparr>Network = ''tcp'', String = ''10.0.0.1:1234''\<rparr> 1400 init)
      = 1400"
  using key_is_printed_form [of "\<lparr>Network = ''tcp'', String = ''10.0.0.2:40000''\<rparr>"
      "\<lparr>Network = ''udp'', String = ''10.0.0.2:40000''\<rparr>"
      "\<lparr>Network = ''tcp'', String = ''10.0.0.1:1234''\<rparr>"
      "\<lparr>Network = ''udp'', String = ''10.0.0.1:1234''\<rparr>" 1400 init]
  by simp

subsection \<open>C10: two pairs of addresses can share a key\<close>

text \<open>
  Claim C10. The key puts the two printed addresses together with nothing between
  them, so two pairs whose local addresses print differently can have one key: local
  \<^verbatim>\<open>1.1.1.1:1\<close> with remote \<^verbatim>\<open>11.1.1.1:1\<close>, and local \<^verbatim>\<open>1.1.1.1:11\<close> with remote
  \<^verbatim>\<open>1.1.1.1:1\<close>. An MSS written for the one pair is what the lookup for the other
  returns, and of two writes the later one is found under both.
\<close>

theorem key_not_injective:
  "\<exists>L1 R1 L2 R2.
     String L1 \<noteq> String L2 \<and> (L1, R1) \<noteq> (L2, R2)
     \<and> String L1 @ String R1 = String L2 @ String R2
     \<and> (\<forall>m w. GetMSSByAddr L2 R2 (putMSSByAddr L1 R1 m w) = m)
     \<and> (\<forall>m m' w. GetMSSByAddr L1 R1 (putMSSByAddr L2 R2 m' (putMSSByAddr L1 R1 m w)) = m')"
proof -
  let ?L1 = "\<lparr>Network = ''tcp'', String = ''1.1.1.1:1''\<rparr>"
  let ?R1 = "\<lparr>Network = ''tcp'', String = ''11.1.1.1:1''\<rparr>"
  let ?L2 = "\<lparr>Network = ''tcp'', String = ''1.1.1.1:11''\<rparr>"
  let ?R2 = "\<lparr>Network = ''tcp'', String = ''1.1.1.1:1''\<rparr>"
  have "String ?L1 \<noteq> String ?L2" by simp
  moreover have "(?L1, ?R1) \<noteq> (?L2, ?R2)" by simp
  moreover have "String ?L1 @ String ?R1 = String ?L2 @ String ?R2" by simp
  moreover have "\<forall>m w. GetMSSByAddr ?L2 ?R2 (putMSSByAddr ?L1 ?R1 m w) = m"
    by (simp add: putMSSByAddr_def GetMSSByAddr_def)
  moreover have "\<forall>m m' w. GetMSSByAddr ?L1 ?R1 (putMSSByAddr ?L2 ?R2 m' (putMSSByAddr ?L1 ?R1 m w)) = m'"
    by (simp add: putMSSByAddr_def GetMSSByAddr_def)
  ultimately show ?thesis by blast
qed

end
